theory Spec2Isabelle
  imports Main
begin

section \<open>Strings\<close>

text \<open>
  A Python \<open>str\<close> is a sequence of Unicode code points, so a character is modelled by
  its code point and a string by the list of its code points. The literals of the
  script are ASCII; \<open>py\<close> embeds such a literal.
\<close>

type_synonym pychar = nat
type_synonym pystr = "nat list"

definition py :: "string \<Rightarrow> pystr" where
  "py s = map of_char s"

definition hyphen :: pychar where "hyphen = of_char (CHR ''-'')"
definition colon :: pychar where "colon = of_char (CHR '':'')"
definition period :: pychar where "period = of_char (CHR ''.'')"
definition comma :: pychar where "comma = of_char (CHR '','')"
definition slash :: pychar where "slash = of_char (CHR ''/'')"

text \<open>
  \<open>str.isalnum\<close> on one character. On ASCII it holds for the digits and the letters.
  Beyond ASCII the answer comes from the Unicode database of the interpreter, which is
  not part of the script: it is the parameter \<open>U\<close>.
\<close>

definition isalnum :: "(pychar \<Rightarrow> bool) \<Rightarrow> pychar \<Rightarrow> bool" where
  "isalnum U c =
     (if c < 128 then (48 \<le> c \<and> c \<le> 57) \<or> (65 \<le> c \<and> c \<le> 90) \<or> (97 \<le> c \<and> c \<le> 122)
      else U c)"

text \<open>
  \<open>str.isspace\<close> on one character, the test \<open>str.strip()\<close> applies. The ASCII
  whitespace is TAB, LF, VT, FF, CR, FS, GS, RS, US and the space; the rest is again
  the Unicode database, the parameter \<open>S\<close>.
\<close>

definition isspace :: "(pychar \<Rightarrow> bool) \<Rightarrow> pychar \<Rightarrow> bool" where
  "isspace S c =
     (if c < 128 then (9 \<le> c \<and> c \<le> 13) \<or> (28 \<le> c \<and> c \<le> 32) else S c)"

text \<open>\<open>s.replace(old, new)\<close> where \<open>old\<close> and \<open>new\<close> are one character each.\<close>

definition str_replace :: "pychar \<Rightarrow> pychar \<Rightarrow> pystr \<Rightarrow> pystr" where
  "str_replace old new s = map (\<lambda>c. if c = old then new else c) s"

text \<open>\<open>s.strip()\<close>: whitespace is dropped at both ends.\<close>

definition strip :: "(pychar \<Rightarrow> bool) \<Rightarrow> pystr \<Rightarrow> pystr" where
  "strip S s = rev (dropWhile (isspace S) (rev (dropWhile (isspace S) s)))"

text \<open>\<open>s.split(sep)\<close> for a one-character separator: never an empty result.\<close>

fun split :: "pychar \<Rightarrow> pystr \<Rightarrow> pystr list" where
  "split sep [] = [[]]"
| "split sep (c # cs) =
     (if c = sep then [] # split sep cs
      else (case split sep cs of
              [] \<Rightarrow> [[c]]
            | x # xs \<Rightarrow> (c # x) # xs))"

text \<open>
  \<open>os.path.join(a, b)\<close> of \<open>posixpath\<close>: an absolute \<open>b\<close> replaces \<open>a\<close>; otherwise
  the two are joined, with a separator unless \<open>a\<close> is empty or already ends in one.
\<close>

definition path_join :: "pystr \<Rightarrow> pystr \<Rightarrow> pystr" where
  "path_join a b =
     (if b \<noteq> [] \<and> hd b = slash then b
      else if a = [] \<or> last a = slash then a @ b
      else a @ slash # b)"

section \<open>The sanitizer\<close>

text \<open>
  \<^verbatim>\<open>
  def get_model_id(model_name):
      return "".join(
          c if c.isalnum() else "-"
          for c in model_name.replace(":", "-").replace(".", "-")
      )
  \<close>
\<close>

definition get_model_id :: "(pychar \<Rightarrow> bool) \<Rightarrow> pystr \<Rightarrow> pystr" where
  "get_model_id U model_name =
     map (\<lambda>c. if isalnum U c then c else hyphen)
       (str_replace period hyphen (str_replace colon hyphen model_name))"

section \<open>The templates\<close>

text \<open>
  The three Jinja2 templates, rendered. \<open>Template(...)\<close> is built with the library's
  defaults: no autoescaping, block tags leave their line breaks in place, and the single
  newline that ends the template source is dropped from the output.
\<close>

definition render_dockerfile :: "pystr \<Rightarrow> pystr list \<Rightarrow> pystr" where
  \<open>render_dockerfile model additional_models =
     py ''FROM ollama/ollama\<newline>ENV HOME /root\<newline>WORKDIR /\<newline>ENV OLLAMA_KEEP_ALIVE -1\<newline>''
     @ py ''RUN ollama serve & sleep 10 && ollama pull '' @ model @ py ''\<newline>''
     @ (if additional_models \<noteq> []
        then concat (map (\<lambda>additional_model.
               py ''\<newline>RUN ollama serve & sleep 10 && ollama pull '' @ additional_model)
               additional_models)
        else [])
     @ py ''\<newline>ENTRYPOINT ["ollama","serve"]''\<close>

definition render_cloudbuild :: "pystr \<Rightarrow> pystr" where
  \<open>render_cloudbuild model_id =
     py ''steps:\<newline> # Build step\<newline> - name: gcr.io/cloud-builders/docker\<newline>   args:\<newline>''
     @ py ''    - build\<newline>    - "-t"\<newline>    - gcr.io/$PROJECT_ID/ollama:'' @ model_id
     @ py ''\<newline>    - "-f"\<newline>    - Dockerfile-'' @ model_id
     @ py ''\<newline>    - .\<newline># Push step\<newline> - name: gcr.io/cloud-builders/docker\<newline>   args:\<newline>''
     @ py ''    - push\<newline>    - gcr.io/$PROJECT_ID/ollama:'' @ model_id
     @ py ''\<newline># Image outputs\<newline>images:\<newline> - gcr.io/$PROJECT_ID/ollama:'' @ model_id
     @ py ''\<newline># Build options\<newline>options:\<newline>  machineType: E2_HIGHCPU_8\<newline>''
     @ py ''  diskSizeGb: 200  # Increased disk space otherwise the model built on cloud build exceeds default space''\<close>

definition render_build_script :: "pystr \<Rightarrow> pystr \<Rightarrow> pystr" where
  \<open>render_build_script build_dir model_id =
     py ''#!/bin/bash\<newline>set -x\<newline>pushd '' @ build_dir
     @ py ''\<newline>gcloud builds submit --config '' @ model_id @ py ''-cloudbuild.yaml\<newline>popd''\<close>

section \<open>The world the script acts on\<close>

text \<open>
  The script writes regular files, changes their mode, prints lines and runs the
  \<open>gcloud\<close> command. The world holds the regular files by path, the lines printed so
  far and the command lines handed to \<open>subprocess.run\<close> so far. The directory tree,
  the permissions and the free space are the environment's: whether a filesystem call
  or the command fails is asked of the environment, which may answer from the current
  world. The environment also says which texts the encoding of the text files can
  take. Standard output is taken to accept every line.
\<close>

record regfile =
  content :: pystr
  mode :: nat

record world =
  files :: "pystr \<rightharpoonup> regfile"
  stdout :: "pystr list"
  invoked :: "pystr list list"

datatype fs_op =
    Makedirs pystr
  | OpenW pystr
  | WriteClose pystr pystr
  | Chmod pystr nat

datatype proc_outcome = Exited int | LaunchFailed

datatype exn =
    OSError fs_op
  | UnicodeEncodeError pystr
  | OSError_exec "pystr list"
  | CalledProcessError int "pystr list"

record env =
  uni_alnum :: "pychar \<Rightarrow> bool"
  uni_space :: "pychar \<Rightarrow> bool"
  fs_fails :: "world \<Rightarrow> fs_op \<Rightarrow> bool"
  encodable :: "pystr \<Rightarrow> bool"
  flushed :: "world \<Rightarrow> fs_op \<Rightarrow> nat"
  create_mode :: nat
  run_cmd :: "world \<Rightarrow> pystr list \<Rightarrow> proc_outcome"
  str_exn :: "exn \<Rightarrow> pystr"

text \<open>
  A statement either raises, leaving the world as it was at that point, or completes
  with a value. \<open>io_bind\<close> is the sequencing of statements: an exception of the first
  skips the second.
\<close>

type_synonym 'a io = "world \<Rightarrow> (exn + 'a) \<times> world"

definition io_return :: "'a \<Rightarrow> 'a io" where
  "io_return x w = (Inr x, w)"

definition io_bind :: "'a io \<Rightarrow> ('a \<Rightarrow> 'b io) \<Rightarrow> 'b io" where
  "io_bind m k w = (case m w of (Inl e, w') \<Rightarrow> (Inl e, w') | (Inr x, w') \<Rightarrow> k x w')"

definition print :: "pystr \<Rightarrow> unit io" where
  "print line w = (Inr (), w\<lparr>stdout := stdout w @ [line]\<rparr>)"

text \<open>\<open>os.makedirs(build_dir, exist_ok=True)\<close>.\<close>

definition makedirs :: "env \<Rightarrow> pystr \<Rightarrow> unit io" where
  "makedirs E d w =
     (if fs_fails E w (Makedirs d) then (Inl (OSError (Makedirs d)), w) else (Inr (), w))"

text \<open>
  \<open>with open(path, "w") as f:\<close> followed by a \<open>f.write\<close> for each of the texts.
  Opening creates the file with the mode the environment gives to new files, or empties
  it and keeps its mode. \<open>f.write\<close> encodes its text and keeps it in the buffer of the
  file object; a text the encoding cannot take raises \<open>UnicodeEncodeError\<close> and ends
  the block. Leaving the block, normally or not, closes the file, which writes the
  buffer out; when that fails, its \<open>OSError\<close> is what the block raises and a prefix of
  the buffer is in the file.
\<close>

definition set_file :: "pystr \<Rightarrow> pystr \<Rightarrow> nat \<Rightarrow> world \<Rightarrow> world" where
  "set_file path text m w = w\<lparr>files := (files w)(path \<mapsto> \<lparr>content = text, mode = m\<rparr>)\<rparr>"

definition open_mode :: "env \<Rightarrow> (pystr \<rightharpoonup> regfile) \<Rightarrow> pystr \<Rightarrow> nat" where
  "open_mode E fs path = (case fs path of None \<Rightarrow> create_mode E | Some f \<Rightarrow> mode f)"

fun write_all :: "env \<Rightarrow> pystr list \<Rightarrow> pystr \<Rightarrow> exn option \<times> pystr" where
  "write_all E [] buf = (None, buf)"
| "write_all E (text # texts) buf =
     (if encodable E text then write_all E texts (buf @ text)
      else (Some (UnicodeEncodeError text), buf))"

definition with_open_w :: "env \<Rightarrow> pystr \<Rightarrow> pystr list \<Rightarrow> unit io" where
  "with_open_w E path texts w =
     (if fs_fails E w (OpenW path) then (Inl (OSError (OpenW path)), w)
      else
        (let m = open_mode E (files w) path;
             w1 = set_file path [] m w;
             (err, buf) = write_all E texts []
         in if fs_fails E w1 (WriteClose path buf)
            then (Inl (OSError (WriteClose path buf)),
                  set_file path (take (flushed E w1 (WriteClose path buf)) buf) m w1)
            else (case err of
                    None \<Rightarrow> (Inr (), set_file path buf m w1)
                  | Some e \<Rightarrow> (Inl e, set_file path buf m w1))))"

text \<open>\<open>with open(path, "w") as f: f.write(text)\<close>.\<close>

definition write_file :: "env \<Rightarrow> pystr \<Rightarrow> pystr \<Rightarrow> unit io" where
  "write_file E path text = with_open_w E path [text]"

text \<open>\<open>os.chmod(path, m)\<close>: an error when there is no such file.\<close>

definition chmod :: "env \<Rightarrow> pystr \<Rightarrow> nat \<Rightarrow> unit io" where
  "chmod E path m w =
     (case files w path of
        None \<Rightarrow> (Inl (OSError (Chmod path m)), w)
      | Some f \<Rightarrow>
          if fs_fails E w (Chmod path m) then (Inl (OSError (Chmod path m)), w)
          else (Inr (), w\<lparr>files := (files w)(path \<mapsto> f\<lparr>mode := m\<rparr>)\<rparr>))"

section \<open>Generating the files\<close>

text \<open>
  The body of the loop of \<open>generate_files\<close>, for one model; \<open>build_scripts\<close> is
  the list the loop appends to.
  \<^verbatim>\<open>
  model_id = get_model_id(model)
  print(f"Generating files for model: {model} (ID: {model_id})")
  dockerfile_content = dockerfile_template.render(model=model, additional_models=[])
  cloudbuild_content = cloudbuild_template.render(model_id=model_id)
  with open(os.path.join(build_dir, f"Dockerfile-{model_id}"), "w") as f:
      f.write(dockerfile_content)
  with open(os.path.join(build_dir, f"{model_id}-cloudbuild.yaml"), "w") as f:
      f.write(cloudbuild_content)
  if generate_build_script:
      build_script_content = build_script_template.render(build_dir=build_dir, model_id=model_id)
      build_script_path = os.path.join(build_dir, f"build-{model_id}.sh")
      with open(build_script_path, "w") as f:
          f.write(build_script_content)
      os.chmod(build_script_path, 0o755)
      build_scripts.append(build_script_path)
  \<close>
\<close>

definition dockerfile_path :: "env \<Rightarrow> pystr \<Rightarrow> pystr \<Rightarrow> pystr" where
  "dockerfile_path E build_dir model =
     path_join build_dir (py ''Dockerfile-'' @ get_model_id (uni_alnum E) model)"

definition cloudbuild_path :: "env \<Rightarrow> pystr \<Rightarrow> pystr \<Rightarrow> pystr" where
  "cloudbuild_path E build_dir model =
     path_join build_dir (get_model_id (uni_alnum E) model @ py ''-cloudbuild.yaml'')"

definition build_script_path :: "env \<Rightarrow> pystr \<Rightarrow> pystr \<Rightarrow> pystr" where
  "build_script_path E build_dir model =
     path_join build_dir (py ''build-'' @ get_model_id (uni_alnum E) model @ py ''.sh'')"

definition build_all_path :: "pystr \<Rightarrow> pystr" where
  "build_all_path build_dir = path_join build_dir (py ''build-all.sh'')"

definition gen_model :: "env \<Rightarrow> pystr \<Rightarrow> bool \<Rightarrow> pystr \<Rightarrow> pystr list \<Rightarrow> pystr list io" where
  "gen_model E build_dir generate_build_script model build_scripts =
     (let model_id = get_model_id (uni_alnum E) model in
      io_bind (print (py ''Generating files for model: '' @ model @ py '' (ID: '' @ model_id @ py '')''))
        (\<lambda>_. io_bind (write_file E (dockerfile_path E build_dir model) (render_dockerfile model []))
        (\<lambda>_. io_bind (write_file E (cloudbuild_path E build_dir model) (render_cloudbuild model_id))
        (\<lambda>_. if generate_build_script
             then io_bind (write_file E (build_script_path E build_dir model)
                             (render_build_script build_dir model_id))
                    (\<lambda>_. io_bind (chmod E (build_script_path E build_dir model) 493)
                    (\<lambda>_. io_return (build_scripts @ [build_script_path E build_dir model])))
             else io_return build_scripts))))"

fun gen_loop :: "env \<Rightarrow> pystr \<Rightarrow> bool \<Rightarrow> pystr list \<Rightarrow> pystr list \<Rightarrow> pystr list io" where
  "gen_loop E build_dir gbs [] build_scripts = io_return build_scripts"
| "gen_loop E build_dir gbs (model # models) build_scripts =
     io_bind (gen_model E build_dir gbs model build_scripts) (gen_loop E build_dir gbs models)"

text \<open>
  The umbrella script: the header, then one line for each path in \<open>build_scripts\<close>,
  each a \<open>f.write\<close> of its own on one file object, and the file made executable
  (\<open>0o755 = 493\<close>).
  \<^verbatim>\<open>
  if generate_build_script and build_scripts:
      with open(os.path.join(build_dir, "build-all.sh"), "w") as f:
          f.write("#!/bin/bash\nset -e\n\n")
          for script in build_scripts:
              f.write(f"{script}\n")
      os.chmod(os.path.join(build_dir, "build-all.sh"), 0o755)
  \<close>
\<close>

definition build_all_writes :: "pystr list \<Rightarrow> pystr list" where
  \<open>build_all_writes build_scripts =
     py ''#!/bin/bash\<newline>set -e\<newline>\<newline>'' # map (\<lambda>script. script @ py ''\<newline>'') build_scripts\<close>

definition generate_files :: "env \<Rightarrow> pystr list \<Rightarrow> pystr \<Rightarrow> bool \<Rightarrow> unit io" where
  "generate_files E models build_dir generate_build_script =
     io_bind (makedirs E build_dir)
       (\<lambda>_. io_bind (gen_loop E build_dir generate_build_script models [])
       (\<lambda>build_scripts.
          if generate_build_script \<and> build_scripts \<noteq> []
          then io_bind (with_open_w E (build_all_path build_dir) (build_all_writes build_scripts))
                 (\<lambda>_. chmod E (build_all_path build_dir) 493)
          else io_return ()))"

section \<open>Submitting the builds\<close>

text \<open>
  \<open>subprocess.run(argv, check=True)\<close> returns when the command exits with status 0,
  raises \<open>CalledProcessError\<close> when it exits with another status, and raises an
  \<open>OSError\<close> when the command cannot be started. The loop catches the second only.
\<close>

definition submit_argv :: "env \<Rightarrow> pystr \<Rightarrow> pystr \<Rightarrow> pystr list" where
  "submit_argv E build_dir model =
     [py ''gcloud'', py ''builds'', py ''submit'', py ''--config'',
      cloudbuild_path E build_dir model, build_dir]"

definition subprocess_run :: "env \<Rightarrow> pystr list \<Rightarrow> unit io" where
  "subprocess_run E argv w =
     (let w' = w\<lparr>invoked := invoked w @ [argv]\<rparr> in
      case run_cmd E w argv of
        LaunchFailed \<Rightarrow> (Inl (OSError_exec argv), w')
      | Exited rc \<Rightarrow> if rc = 0 then (Inr (), w') else (Inl (CalledProcessError rc argv), w'))"

definition submit_model :: "env \<Rightarrow> pystr \<Rightarrow> pystr \<Rightarrow> unit io" where
  "submit_model E build_dir model =
     (let model_id = get_model_id (uni_alnum E) model in
      io_bind (print (py ''Submitting build for model: '' @ model @ py '' (ID: '' @ model_id @ py '')''))
        (\<lambda>_ w. case subprocess_run E (submit_argv E build_dir model) w of
                 (Inr _, w') \<Rightarrow> print (py ''Build submitted successfully for '' @ model) w'
               | (Inl (CalledProcessError rc argv), w') \<Rightarrow>
                   print (py ''Error submitting build for '' @ model @ py '': ''
                          @ str_exn E (CalledProcessError rc argv)) w'
               | (Inl e, w') \<Rightarrow> (Inl e, w')))"

fun submit_builds :: "env \<Rightarrow> pystr list \<Rightarrow> pystr \<Rightarrow> unit io" where
  "submit_builds E [] build_dir = io_return ()"
| "submit_builds E (model # models) build_dir =
     io_bind (submit_model E build_dir model) (\<lambda>_. submit_builds E models build_dir)"

section \<open>The entry point\<close>

text \<open>
  \<open>main\<close> called with its parameters given (the branch that reads the command line
  only fills the same four parameters).
\<close>

definition parse_models :: "env \<Rightarrow> pystr \<Rightarrow> pystr list" where
  "parse_models E models_str = map (strip (uni_space E)) (split comma models_str)"

definition main :: "env \<Rightarrow> pystr \<Rightarrow> pystr \<Rightarrow> bool \<Rightarrow> bool \<Rightarrow> unit io" where
  \<open>main E models_str build_dir submit no_build_scripts =
     (let models = parse_models E models_str in
      io_bind (generate_files E models build_dir (\<not> no_build_scripts))
        (\<lambda>_. if submit then submit_builds E models build_dir
             else io_bind (print (py ''\<newline>Files generated successfully. To submit builds, run:''))
                    (\<lambda>_. io_bind (print (py ''  '' @ build_all_path build_dir))
                    (\<lambda>_. print (py ''Or specify --submit when running this script'')))))\<close>

section \<open>Auxiliary definitions\<close>

text \<open>
  The text of the umbrella script; an environment in which no call fails and an empty
  world, for evaluating the model; and the files a completed run leaves, as a function
  of the files before it.
\<close>

definition build_all_content :: "pystr list \<Rightarrow> pystr" where
  "build_all_content build_scripts = concat (build_all_writes build_scripts)"

definition quiet_env :: env where
  "quiet_env =
     \<lparr>uni_alnum = (\<lambda>c. False), uni_space = (\<lambda>c. False),
      fs_fails = (\<lambda>w op. False), encodable = (\<lambda>text. True), flushed = (\<lambda>w op. 0), create_mode = 420,
      run_cmd = (\<lambda>w argv. Exited 0), str_exn = (\<lambda>e. [])\<rparr>"

definition empty_world :: world where
  "empty_world = \<lparr>files = Map.empty, stdout = [], invoked = []\<rparr>"

definition put_file :: "env \<Rightarrow> pystr \<Rightarrow> pystr \<Rightarrow> (pystr \<rightharpoonup> regfile) \<Rightarrow> (pystr \<rightharpoonup> regfile)" where
  "put_file E path text fs = fs(path \<mapsto> \<lparr>content = text, mode = open_mode E fs path\<rparr>)"

definition put_script :: "pystr \<Rightarrow> pystr \<Rightarrow> (pystr \<rightharpoonup> regfile) \<Rightarrow> (pystr \<rightharpoonup> regfile)" where
  "put_script path text fs = fs(path \<mapsto> \<lparr>content = text, mode = 493\<rparr>)"

definition model_files :: "env \<Rightarrow> pystr \<Rightarrow> bool \<Rightarrow> pystr \<Rightarrow> (pystr \<rightharpoonup> regfile) \<Rightarrow> (pystr \<rightharpoonup> regfile)" where
  "model_files E build_dir gbs model fs =
     (let fs2 = put_file E (cloudbuild_path E build_dir model)
                  (render_cloudbuild (get_model_id (uni_alnum E) model))
                  (put_file E (dockerfile_path E build_dir model) (render_dockerfile model []) fs)
      in if gbs
         then put_script (build_script_path E build_dir model)
                (render_build_script build_dir (get_model_id (uni_alnum E) model)) fs2
         else fs2)"

definition generating_line :: "env \<Rightarrow> pystr \<Rightarrow> pystr" where
  "generating_line E model =
     py ''Generating files for model: '' @ model @ py '' (ID: ''
     @ get_model_id (uni_alnum E) model @ py '')''"

definition denied_env :: env where
  "denied_env = quiet_env\<lparr>fs_fails := (\<lambda>w op. op = OpenW (py ''build/Dockerfile-b''))\<rparr>"

definition no_gcloud_env :: env where
  "no_gcloud_env = quiet_env\<lparr>run_cmd := (\<lambda>w argv. LaunchFailed)\<rparr>"

definition failing_a_env :: env where
  "failing_a_env =
     quiet_env\<lparr>run_cmd := (\<lambda>w argv. if py ''build/a-cloudbuild.yaml'' \<in> set argv
                                    then Exited 1 else Exited 0),
               str_exn := (\<lambda>e. py ''non-zero exit status'')\<rparr>"

definition submitting_line :: "env \<Rightarrow> pystr \<Rightarrow> pystr" where
  "submitting_line E model =
     py ''Submitting build for model: '' @ model @ py '' (ID: ''
     @ get_model_id (uni_alnum E) model @ py '')''"

definition outcome_line :: "env \<Rightarrow> pystr \<Rightarrow> pystr \<Rightarrow> world \<Rightarrow> pystr" where
  "outcome_line E build_dir model w =
     (case run_cmd E (w\<lparr>stdout := stdout w @ [submitting_line E model]\<rparr>)
             (submit_argv E build_dir model) of
        Exited rc \<Rightarrow>
          if rc = 0 then py ''Build submitted successfully for '' @ model
          else py ''Error submitting build for '' @ model @ py '': ''
               @ str_exn E (CalledProcessError rc (submit_argv E build_dir model))
      | LaunchFailed \<Rightarrow> [])"

definition denied_umbrella_env :: env where
  "denied_umbrella_env = quiet_env\<lparr>fs_fails := (\<lambda>w op. op = OpenW (py ''build/build-all.sh''))\<rparr>"

definition launch_b_fails_env :: env where
  "launch_b_fails_env =
     quiet_env\<lparr>run_cmd := (\<lambda>w argv. if py ''build/b-cloudbuild.yaml'' \<in> set argv
                                    then LaunchFailed else Exited 0)\<rparr>"

definition full_disk_env :: env where
  "full_disk_env =
     quiet_env\<lparr>fs_fails := (\<lambda>w op. case op of WriteClose p text \<Rightarrow> True | _ \<Rightarrow> False)\<rparr>"

section \<open>Properties of the sanitizer\<close>

lemma hyphen_not_alnum: "\<not> isalnum U hyphen"
  by (simp add: isalnum_def hyphen_def)

lemma colon_not_alnum: "\<not> isalnum U colon"
  by (simp add: isalnum_def colon_def)

lemma period_not_alnum: "\<not> isalnum U period"
  by (simp add: isalnum_def period_def)

lemma slash_not_alnum: "\<not> isalnum U slash"
  by (simp add: isalnum_def slash_def)

text \<open>The two replacements add nothing to the general rule.\<close>

lemma get_model_id_map:
  "get_model_id U s = map (\<lambda>c. if isalnum U c then c else hyphen) s"
  by (auto simp: get_model_id_def str_replace_def hyphen_not_alnum colon_not_alnum
      period_not_alnum)

lemma get_model_id_chars: "c \<in> set (get_model_id U s) \<Longrightarrow> isalnum U c \<or> c = hyphen"
  by (auto simp: get_model_id_map)

text \<open>
  C1. The token is the identifier with every character that is not alphanumeric
  replaced by a hyphen, position by position; so it consists of alphanumeric characters
  and hyphens only, and neither a colon nor a period is left in it.
\<close>

theorem get_model_id_alnum_or_hyphen:
  "get_model_id U s = map (\<lambda>c. if isalnum U c then c else hyphen) s
   \<and> list_all (\<lambda>c. isalnum U c \<or> c = hyphen) (get_model_id U s)
   \<and> colon \<notin> set (get_model_id U s)
   \<and> period \<notin> set (get_model_id U s)"
proof -
  have "list_all (\<lambda>c. isalnum U c \<or> c = hyphen) (get_model_id U s)"
    by (auto simp: get_model_id_map list_all_iff)
  moreover have "colon \<notin> set (get_model_id U s)"
    using colon_not_alnum [of U] by (auto simp: get_model_id_map colon_def hyphen_def)
  moreover have "period \<notin> set (get_model_id U s)"
    using period_not_alnum [of U] by (auto simp: get_model_id_map period_def hyphen_def)
  ultimately show ?thesis by (simp add: get_model_id_map)
qed

text \<open>
  C2. The sanitizer is a function of the identifier (and of the interpreter's character
  table), and sanitizing a token gives the token back.
\<close>

theorem get_model_id_idempotent:
  "get_model_id U (get_model_id U s) = get_model_id U s"
  by (simp add: get_model_id_map hyphen_not_alnum)

section \<open>Generating the files: what a completed run leaves\<close>

lemma write_all_None: "write_all E ts buf = (None, b) \<Longrightarrow> b = buf @ concat ts"
proof (induction ts arbitrary: buf)
  case Nil
  then show ?case by simp
next
  case (Cons t ts)
  from Cons.prems have "write_all E ts (buf @ t) = (None, b)"
    by (simp split: if_splits)
  from Cons.IH [OF this] show ?case by simp
qed

lemma write_all_encodable:
  "(\<And>t. encodable E t) \<Longrightarrow> write_all E ts buf = (None, buf @ concat ts)"
  by (induction ts arbitrary: buf) simp_all

lemma with_open_w_ok:
  assumes "with_open_w E p ts w = (Inr u, w')"
  shows "files w' = put_file E p (concat ts) (files w)"
    and "stdout w' = stdout w" and "invoked w' = invoked w"
proof -
  obtain err buf where wa: "write_all E ts [] = (err, buf)"
    by (cases "write_all E ts []")
  with assms have "err = None"
    by (auto simp: with_open_w_def Let_def split: if_splits option.splits)
  with wa write_all_None [of E ts "[]" buf] have "buf = concat ts" by simp
  with assms wa
  show "files w' = put_file E p (concat ts) (files w)"
    and "stdout w' = stdout w" and "invoked w' = invoked w"
    by (auto simp: with_open_w_def put_file_def set_file_def Let_def
        split: if_splits option.splits)
qed

lemma write_file_ok:
  assumes "write_file E p t w = (Inr u, w')"
  shows "files w' = put_file E p t (files w)" and "stdout w' = stdout w" and "invoked w' = invoked w"
  using with_open_w_ok [of E p "[t]" w u w'] assms
  by (simp_all add: write_file_def)

lemma chmod_ok:
  assumes "chmod E p m w = (Inr u, w')"
  shows "\<exists>f. files w p = Some f \<and> files w' = (files w)(p \<mapsto> f\<lparr>mode := m\<rparr>)"
    and "stdout w' = stdout w" and "invoked w' = invoked w"
  using assms
  by (auto simp: chmod_def split: option.splits if_splits)

lemma with_open_chmod_ok:
  assumes "with_open_w E p ts w = (Inr u, w1)" and "chmod E p m w1 = (Inr u', w')"
  shows "files w' = (files w)(p \<mapsto> \<lparr>content = concat ts, mode = m\<rparr>)"
    and "stdout w' = stdout w" and "invoked w' = invoked w"
  using with_open_w_ok [OF assms(1)] chmod_ok [OF assms(2)]
  by (auto simp: put_file_def)

lemma write_chmod_ok:
  assumes "write_file E p t w = (Inr u, w1)" and "chmod E p m w1 = (Inr u', w')"
  shows "files w' = (files w)(p \<mapsto> \<lparr>content = t, mode = m\<rparr>)"
    and "stdout w' = stdout w" and "invoked w' = invoked w"
  using with_open_chmod_ok [of E p "[t]" w u w1 m u' w'] assms
  by (simp_all add: write_file_def)

lemma io_bind_Inr:
  "io_bind m k w = (Inr y, w') \<longleftrightarrow> (\<exists>x w1. m w = (Inr x, w1) \<and> k x w1 = (Inr y, w'))"
  by (auto simp: io_bind_def split: prod.splits sum.splits)

lemma gen_model_ok:
  assumes "gen_model E bd gbs m sc w = (Inr sc', w')"
  shows "files w' = model_files E bd gbs m (files w)"
    and "stdout w' = stdout w @ [generating_line E m]"
    and "invoked w' = invoked w"
    and "sc' = sc @ (if gbs then [build_script_path E bd m] else [])"
proof -
  from assms obtain w0 w1 w2 where
    p: "w0 = w\<lparr>stdout := stdout w @ [generating_line E m]\<rparr>" and
    d: "write_file E (dockerfile_path E bd m) (render_dockerfile m []) w0 = (Inr (), w1)" and
    c: "write_file E (cloudbuild_path E bd m) (render_cloudbuild (get_model_id (uni_alnum E) m)) w1 = (Inr (), w2)" and
    r: "(if gbs
         then io_bind (write_file E (build_script_path E bd m)
                             (render_build_script bd (get_model_id (uni_alnum E) m)))
                    (\<lambda>_. io_bind (chmod E (build_script_path E bd m) 493)
                    (\<lambda>_. io_return (sc @ [build_script_path E bd m])))
         else io_return sc) w2 = (Inr sc', w')"
    by (auto simp: gen_model_def Let_def io_bind_Inr print_def generating_line_def)
  note D = write_file_ok [OF d] and C = write_file_ok [OF c]
  have base: "files w2 = put_file E (cloudbuild_path E bd m)
                  (render_cloudbuild (get_model_id (uni_alnum E) m))
                  (put_file E (dockerfile_path E bd m) (render_dockerfile m []) (files w))"
    "stdout w2 = stdout w @ [generating_line E m]" "invoked w2 = invoked w"
    using D C p by simp_all
  have all: "files w' = model_files E bd gbs m (files w) \<and>
      stdout w' = stdout w @ [generating_line E m] \<and>
      invoked w' = invoked w \<and> sc' = sc @ (if gbs then [build_script_path E bd m] else [])"
  proof (cases gbs)
    case True
    with r obtain w3 where
      s: "write_file E (build_script_path E bd m) (render_build_script bd (get_model_id (uni_alnum E) m)) w2 = (Inr (), w3)" and
      h: "chmod E (build_script_path E bd m) 493 w3 = (Inr (), w')" and
      e: "sc' = sc @ [build_script_path E bd m]"
      by (auto simp: io_bind_Inr io_return_def)
    from write_chmod_ok [OF s h] base True e
    show ?thesis
      by (simp add: model_files_def put_script_def Let_def)
  next
    case False
    with r have "w' = w2" "sc' = sc" by (auto simp: io_return_def)
    with base False
    show ?thesis
      by (simp add: model_files_def Let_def)
  qed
  then show "files w' = model_files E bd gbs m (files w)"
    and "stdout w' = stdout w @ [generating_line E m]"
    and "invoked w' = invoked w"
    and "sc' = sc @ (if gbs then [build_script_path E bd m] else [])"
    by simp_all
qed

lemma gen_loop_ok:
  "gen_loop E bd gbs ms sc w = (Inr sc', w') \<Longrightarrow>
     files w' = fold (model_files E bd gbs) ms (files w)
     \<and> stdout w' = stdout w @ map (generating_line E) ms
     \<and> invoked w' = invoked w
     \<and> sc' = sc @ (if gbs then map (build_script_path E bd) ms else [])"
proof (induction ms arbitrary: sc w)
  case Nil
  then show ?case by (simp add: io_return_def)
next
  case (Cons m ms)
  from Cons.prems obtain sc1 w1 where
    a: "gen_model E bd gbs m sc w = (Inr sc1, w1)" and
    b: "gen_loop E bd gbs ms sc1 w1 = (Inr sc', w')"
    by (auto simp: io_bind_Inr)
  from gen_model_ok [OF a] Cons.IH [OF b] show ?case by simp
qed


lemma makedirs_ok: "makedirs E d w = (Inr u, w') \<Longrightarrow> w' = w"
  by (auto simp: makedirs_def split: if_splits)

lemma generate_files_ok:
  assumes "generate_files E ms bd gbs w = (Inr u, w')"
  shows "files w' =
           (if gbs \<and> ms \<noteq> []
            then put_script (build_all_path bd) (build_all_content (map (build_script_path E bd) ms))
                   (fold (model_files E bd gbs) ms (files w))
            else fold (model_files E bd gbs) ms (files w))"
    and "stdout w' = stdout w @ map (generating_line E) ms"
    and "invoked w' = invoked w"
proof -
  from assms obtain w0 sc w1 where
    m: "makedirs E bd w = (Inr (), w0)" and
    l: "gen_loop E bd gbs ms [] w0 = (Inr sc, w1)" and
    r: "(if gbs \<and> sc \<noteq> []
          then io_bind (with_open_w E (build_all_path bd) (build_all_writes sc))
                 (\<lambda>_. chmod E (build_all_path bd) 493)
          else io_return ()) w1 = (Inr u, w')"
    by (auto simp: generate_files_def io_bind_Inr)
  from makedirs_ok [OF m] have w0: "w0 = w" .
  note L = gen_loop_ok [OF l, unfolded w0]
  have all: "files w' =
           (if gbs \<and> ms \<noteq> []
            then put_script (build_all_path bd) (build_all_content (map (build_script_path E bd) ms))
                   (fold (model_files E bd gbs) ms (files w))
            else fold (model_files E bd gbs) ms (files w))
     \<and> stdout w' = stdout w @ map (generating_line E) ms \<and> invoked w' = invoked w"
  proof (cases "gbs \<and> ms \<noteq> []")
    case True
    with L have sc: "sc = map (build_script_path E bd) ms" "sc \<noteq> []" by simp_all
    with r True obtain w2 where
      a: "with_open_w E (build_all_path bd) (build_all_writes sc) w1 = (Inr (), w2)" and
      b: "chmod E (build_all_path bd) 493 w2 = (Inr u, w')"
      by (auto simp: io_bind_Inr)
    from with_open_chmod_ok [OF a b] L True sc show ?thesis
      by (simp add: put_script_def build_all_content_def)
  next
    case False
    with L have "\<not> (gbs \<and> sc \<noteq> [])" by auto
    with r have "w' = w1" by (auto simp: io_return_def)
    with L False show ?thesis by auto
  qed
  then show "files w' =
           (if gbs \<and> ms \<noteq> []
            then put_script (build_all_path bd) (build_all_content (map (build_script_path E bd) ms))
                   (fold (model_files E bd gbs) ms (files w))
            else fold (model_files E bd gbs) ms (files w))"
    and "stdout w' = stdout w @ map (generating_line E) ms"
    and "invoked w' = invoked w"
    by simp_all
qed

subsection \<open>The paths of the artifacts are distinct\<close>

lemma path_join_inject:
  assumes "path_join a x = path_join a y" and "x = [] \<or> hd x \<noteq> slash" and "y = [] \<or> hd y \<noteq> slash"
  shows "x = y"
  using assms by (auto simp: path_join_def split: if_splits)

lemma token_hd: "get_model_id U s \<noteq> [] \<Longrightarrow> hd (get_model_id U s) \<noteq> slash"
proof
  assume ne: "get_model_id U s \<noteq> []" and eq: "hd (get_model_id U s) = slash"
  from ne have "hd (get_model_id U s) \<in> set (get_model_id U s)" by simp
  from get_model_id_chars [OF this] eq show False
    by (auto simp: slash_not_alnum) (simp add: slash_def hyphen_def)
qed

lemma token_no_slash: "slash \<notin> set (get_model_id U s)"
proof
  assume "slash \<in> set (get_model_id U s)"
  from get_model_id_chars [OF this] show False
    by (auto simp: slash_not_alnum) (simp add: slash_def hyphen_def)
qed

lemma token_no_period: "period \<notin> set (get_model_id U s)"
proof
  assume "period \<in> set (get_model_id U s)"
  from get_model_id_chars [OF this] show False
    by (auto simp: period_not_alnum) (simp add: period_def hyphen_def)
qed

lemma dockerfile_name_rel: "hd (py ''Dockerfile-'' @ t) \<noteq> slash"
  by (simp add: py_def slash_def)

lemma cloudbuild_name_rel:
  "hd (get_model_id U s @ py ''-cloudbuild.yaml'') \<noteq> slash"
proof (cases "get_model_id U s = []")
  case True
  then show ?thesis by (simp add: py_def slash_def)
next
  case False
  with token_hd [OF False] show ?thesis by simp
qed

lemma build_script_name_rel: "hd (py ''build-'' @ t @ py ''.sh'') \<noteq> slash"
  by (simp add: py_def slash_def)

lemma build_all_name_rel: "hd (py ''build-all.sh'') \<noteq> slash"
  by (simp add: py_def slash_def)

lemma dockerfile_ne_cloudbuild:
  "dockerfile_path E bd m \<noteq> cloudbuild_path E bd m'"
proof
  assume "dockerfile_path E bd m = cloudbuild_path E bd m'"
  then have "py ''Dockerfile-'' @ get_model_id (uni_alnum E) m
           = get_model_id (uni_alnum E) m' @ py ''-cloudbuild.yaml''"
    unfolding dockerfile_path_def cloudbuild_path_def
    by (rule path_join_inject) (simp_all add: dockerfile_name_rel cloudbuild_name_rel)
  then have "set (py ''Dockerfile-'' @ get_model_id (uni_alnum E) m)
           = set (get_model_id (uni_alnum E) m' @ py ''-cloudbuild.yaml'')" by simp
  moreover have "period \<in> set (get_model_id (uni_alnum E) m' @ py ''-cloudbuild.yaml'')"
    by (simp add: py_def period_def)
  moreover have "period \<notin> set (py ''Dockerfile-'' @ get_model_id (uni_alnum E) m)"
    using token_no_period [of "uni_alnum E" m] by (simp add: py_def) (simp add: period_def)
  ultimately show False by simp
qed

lemma dockerfile_ne_build_script:
  "dockerfile_path E bd m \<noteq> build_script_path E bd m'"
proof
  assume "dockerfile_path E bd m = build_script_path E bd m'"
  then have "py ''Dockerfile-'' @ get_model_id (uni_alnum E) m
           = py ''build-'' @ get_model_id (uni_alnum E) m' @ py ''.sh''"
    unfolding dockerfile_path_def build_script_path_def
    by (rule path_join_inject) (simp_all add: dockerfile_name_rel build_script_name_rel)
  then show False by (simp add: py_def)
qed

lemma dockerfile_ne_build_all:
  "dockerfile_path E bd m \<noteq> build_all_path bd"
proof
  assume "dockerfile_path E bd m = build_all_path bd"
  then have "py ''Dockerfile-'' @ get_model_id (uni_alnum E) m = py ''build-all.sh''"
    unfolding dockerfile_path_def build_all_path_def
    by (rule path_join_inject) (simp_all add: dockerfile_name_rel build_all_name_rel)
  then show False by (simp add: py_def)
qed

lemma cloudbuild_ne_build_script:
  "cloudbuild_path E bd m \<noteq> build_script_path E bd m'"
proof
  assume "cloudbuild_path E bd m = build_script_path E bd m'"
  then have "get_model_id (uni_alnum E) m @ py ''-cloudbuild.yaml''
           = py ''build-'' @ get_model_id (uni_alnum E) m' @ py ''.sh''"
    unfolding cloudbuild_path_def build_script_path_def
    by (rule path_join_inject) (simp_all add: cloudbuild_name_rel build_script_name_rel)
  then have "last (get_model_id (uni_alnum E) m @ py ''-cloudbuild.yaml'')
           = last (py ''build-'' @ get_model_id (uni_alnum E) m' @ py ''.sh'')" by simp
  then show False by (simp add: py_def)
qed

lemma cloudbuild_ne_build_all:
  "cloudbuild_path E bd m \<noteq> build_all_path bd"
proof
  assume "cloudbuild_path E bd m = build_all_path bd"
  then have "get_model_id (uni_alnum E) m @ py ''-cloudbuild.yaml'' = py ''build-all.sh''"
    unfolding cloudbuild_path_def build_all_path_def
    by (rule path_join_inject) (simp_all add: cloudbuild_name_rel build_all_name_rel)
  then have "last (get_model_id (uni_alnum E) m @ py ''-cloudbuild.yaml'')
           = last (py ''build-all.sh'')" by simp
  then show False by (simp add: py_def)
qed


subsection \<open>The files after the loop\<close>

lemma model_files_frame:
  assumes "p \<noteq> dockerfile_path E bd m" and "p \<noteq> cloudbuild_path E bd m"
    and "gbs \<Longrightarrow> p \<noteq> build_script_path E bd m"
  shows "model_files E bd gbs m fs p = fs p"
  using assms by (simp add: model_files_def put_file_def put_script_def Let_def)

lemma fold_model_files_frame:
  assumes "\<And>m. m \<in> set ms \<Longrightarrow> p \<noteq> dockerfile_path E bd m \<and> p \<noteq> cloudbuild_path E bd m
            \<and> (gbs \<longrightarrow> p \<noteq> build_script_path E bd m)"
  shows "fold (model_files E bd gbs) ms fs p = fs p"
  using assms
proof (induction ms arbitrary: fs)
  case Nil
  then show ?case by simp
next
  case (Cons m ms)
  have "fold (model_files E bd gbs) ms (model_files E bd gbs m fs) p = model_files E bd gbs m fs p"
    by (rule Cons.IH) (simp add: Cons.prems)
  also have "\<dots> = fs p"
    by (rule model_files_frame) (simp_all add: Cons.prems)
  finally show ?case by simp
qed

lemma dom_model_files:
  "dom (model_files E bd gbs m fs) =
     dom fs \<union> {dockerfile_path E bd m, cloudbuild_path E bd m}
       \<union> (if gbs then {build_script_path E bd m} else {})"
  by (auto simp: model_files_def put_file_def put_script_def Let_def)

lemma dom_fold_model_files:
  "dom (fold (model_files E bd gbs) ms fs) =
     dom fs \<union> (\<Union>m\<in>set ms. {dockerfile_path E bd m, cloudbuild_path E bd m}
                  \<union> (if gbs then {build_script_path E bd m} else {}))"
proof (induction ms arbitrary: fs)
  case Nil
  then show ?case by simp
next
  case (Cons m ms)
  show ?case
    unfolding fold_simps Cons.IH dom_model_files by auto
qed

lemma model_files_flag:
  assumes "fs p = fs' p" and "p \<noteq> build_script_path E bd m"
  shows "model_files E bd True m fs p = model_files E bd False m fs' p"
  using assms dockerfile_ne_cloudbuild [of E bd m m]
  by (auto simp: model_files_def put_file_def put_script_def open_mode_def Let_def)

lemma fold_model_files_flag:
  assumes "fs p = fs' p" and "\<And>m. m \<in> set ms \<Longrightarrow> p \<noteq> build_script_path E bd m"
  shows "fold (model_files E bd True) ms fs p = fold (model_files E bd False) ms fs' p"
  using assms
proof (induction ms arbitrary: fs fs')
  case Nil
  then show ?case by simp
next
  case (Cons m ms)
  have "model_files E bd True m fs p = model_files E bd False m fs' p"
    by (rule model_files_flag) (simp_all add: Cons.prems)
  then have "fold (model_files E bd True) ms (model_files E bd True m fs) p
           = fold (model_files E bd False) ms (model_files E bd False m fs') p"
    by (rule Cons.IH) (simp add: Cons.prems)
  then show ?case by simp
qed

lemma model_files_dockerfile:
  "model_files E bd gbs m fs (dockerfile_path E bd m) =
     Some \<lparr>content = render_dockerfile m [], mode = open_mode E fs (dockerfile_path E bd m)\<rparr>"
  using dockerfile_ne_cloudbuild [of E bd m m] dockerfile_ne_build_script [of E bd m m]
  by (simp add: model_files_def put_file_def put_script_def Let_def)

lemma model_files_cloudbuild:
  "model_files E bd gbs m fs (cloudbuild_path E bd m) =
     Some \<lparr>content = render_cloudbuild (get_model_id (uni_alnum E) m),
           mode = open_mode E fs (cloudbuild_path E bd m)\<rparr>"
  using dockerfile_ne_cloudbuild [of E bd m m] cloudbuild_ne_build_script [of E bd m m]
  by (simp add: model_files_def put_file_def put_script_def open_mode_def Let_def)

lemma model_files_build_script:
  "model_files E bd True m fs (build_script_path E bd m) =
     Some \<lparr>content = render_build_script bd (get_model_id (uni_alnum E) m), mode = 493\<rparr>"
  by (simp add: model_files_def put_script_def Let_def)

subsection \<open>A run completes when no filesystem call fails\<close>

lemma with_open_w_quiet:
  assumes "\<And>w op. \<not> fs_fails E w op" and "\<And>t. encodable E t"
  shows "\<exists>w'. with_open_w E p ts w = (Inr (), w') \<and> files w' p \<noteq> None"
  using assms(1) write_all_encodable [of E ts "[]", OF assms(2)]
  by (simp add: with_open_w_def set_file_def Let_def)

lemma write_file_quiet:
  assumes "\<And>w op. \<not> fs_fails E w op" and "\<And>t. encodable E t"
  shows "\<exists>w'. write_file E p t w = (Inr (), w') \<and> files w' p \<noteq> None"
  unfolding write_file_def by (rule with_open_w_quiet [OF assms])

lemma chmod_quiet:
  assumes "\<And>w op. \<not> fs_fails E w op" and "files w p \<noteq> None"
  shows "\<exists>w'. chmod E p m w = (Inr (), w')"
  using assms by (auto simp: chmod_def split: option.splits)

lemma gen_model_quiet:
  assumes q: "\<And>w op. \<not> fs_fails E w op" and enc: "\<And>t. encodable E t"
  shows "\<exists>sc' w'. gen_model E bd gbs m sc w = (Inr sc', w')"
proof -
  obtain w0 where p: "print (generating_line E m) w = (Inr (), w0)" by (simp add: print_def)
  from write_file_quiet [OF q enc] obtain w1 where
    d: "write_file E (dockerfile_path E bd m) (render_dockerfile m []) w0 = (Inr (), w1)" by blast
  from write_file_quiet [OF q enc] obtain w2 where
    c: "write_file E (cloudbuild_path E bd m) (render_cloudbuild (get_model_id (uni_alnum E) m)) w1 = (Inr (), w2)" by blast
  from write_file_quiet [OF q enc] obtain w3 where
    s: "write_file E (build_script_path E bd m) (render_build_script bd (get_model_id (uni_alnum E) m)) w2 = (Inr (), w3)"
    and ex: "files w3 (build_script_path E bd m) \<noteq> None" by blast
  from chmod_quiet [OF q ex] obtain w4 where
    h: "chmod E (build_script_path E bd m) 493 w3 = (Inr (), w4)" by blast
  from p d c s h show ?thesis
    by (cases gbs) (simp_all add: gen_model_def Let_def io_bind_def io_return_def generating_line_def)
qed

lemma gen_loop_quiet:
  assumes q: "\<And>w op. \<not> fs_fails E w op" and enc: "\<And>t. encodable E t"
  shows "\<exists>sc' w'. gen_loop E bd gbs ms sc w = (Inr sc', w')"
proof (induction ms arbitrary: sc w)
  case Nil
  then show ?case by (simp add: io_return_def)
next
  case (Cons m ms)
  from gen_model_quiet [OF q enc] obtain sc1 w1 where
    "gen_model E bd gbs m sc w = (Inr sc1, w1)" by blast
  with Cons.IH [of sc1 w1] show ?case by (simp add: io_bind_def)
qed

lemma generate_files_quiet:
  assumes q: "\<And>w op. \<not> fs_fails E w op" and enc: "\<And>t. encodable E t"
  shows "\<exists>w'. generate_files E ms bd gbs w = (Inr (), w')"
proof -
  from q have m: "makedirs E bd w = (Inr (), w)" by (simp add: makedirs_def)
  from gen_loop_quiet [OF q enc] obtain sc w1 where
    l: "gen_loop E bd gbs ms [] w = (Inr sc, w1)" by blast
  from with_open_w_quiet [OF q enc] obtain w2 where
    a: "with_open_w E (build_all_path bd) (build_all_writes sc) w1 = (Inr (), w2)"
    and ex: "files w2 (build_all_path bd) \<noteq> None" by blast
  from chmod_quiet [OF q ex] obtain w3 where
    h: "chmod E (build_all_path bd) 493 w2 = (Inr (), w3)" by blast
  from m l a h show ?thesis
    by (simp add: generate_files_def io_bind_def io_return_def)
qed


section \<open>The artifacts of a run\<close>

lemma path_join_relative:
  "hd n \<noteq> slash \<Longrightarrow>
   path_join bd n = (if bd = [] \<or> last bd = slash then bd @ n else bd @ slash # n)"
  by (simp add: path_join_def)

lemma quiet_env_quiet: "\<not> fs_fails quiet_env w op"
  by (simp add: quiet_env_def)

lemma quiet_env_encodable: "encodable quiet_env t"
  by (simp add: quiet_env_def)

lemma dockerfile_path_eq:
  "dockerfile_path E bd m = dockerfile_path E bd m'
   \<longleftrightarrow> get_model_id (uni_alnum E) m = get_model_id (uni_alnum E) m'"
proof
  assume "dockerfile_path E bd m = dockerfile_path E bd m'"
  then have "py ''Dockerfile-'' @ get_model_id (uni_alnum E) m
           = py ''Dockerfile-'' @ get_model_id (uni_alnum E) m'"
    unfolding dockerfile_path_def
    by (rule path_join_inject) (simp_all add: dockerfile_name_rel)
  then show "get_model_id (uni_alnum E) m = get_model_id (uni_alnum E) m'" by simp
qed (simp add: dockerfile_path_def)

lemma cloudbuild_path_eq:
  "cloudbuild_path E bd m = cloudbuild_path E bd m'
   \<longleftrightarrow> get_model_id (uni_alnum E) m = get_model_id (uni_alnum E) m'"
proof
  assume "cloudbuild_path E bd m = cloudbuild_path E bd m'"
  then have "get_model_id (uni_alnum E) m @ py ''-cloudbuild.yaml''
           = get_model_id (uni_alnum E) m' @ py ''-cloudbuild.yaml''"
    unfolding cloudbuild_path_def
    by (rule path_join_inject) (simp_all add: cloudbuild_name_rel)
  then show "get_model_id (uni_alnum E) m = get_model_id (uni_alnum E) m'" by simp
qed (simp add: cloudbuild_path_def)

lemma build_script_path_eq:
  "build_script_path E bd m = build_script_path E bd m'
   \<longleftrightarrow> get_model_id (uni_alnum E) m = get_model_id (uni_alnum E) m'"
proof
  assume "build_script_path E bd m = build_script_path E bd m'"
  then have "py ''build-'' @ get_model_id (uni_alnum E) m @ py ''.sh''
           = py ''build-'' @ get_model_id (uni_alnum E) m' @ py ''.sh''"
    unfolding build_script_path_def
    by (rule path_join_inject) (simp_all add: build_script_name_rel)
  then show "get_model_id (uni_alnum E) m = get_model_id (uni_alnum E) m'" by simp
qed (simp add: build_script_path_def)

text \<open>The model that is the last of its token in the list decides the two files.\<close>

lemma fold_model_files_last:
  assumes "\<And>m'. m' \<in> set ms' \<Longrightarrow> get_model_id (uni_alnum E) m' \<noteq> get_model_id (uni_alnum E) m"
  shows "map_option content (fold (model_files E bd gbs) (ms @ m # ms') fs (dockerfile_path E bd m))
           = Some (render_dockerfile m [])"
    and "map_option content (fold (model_files E bd gbs) (ms @ m # ms') fs (cloudbuild_path E bd m))
           = Some (render_cloudbuild (get_model_id (uni_alnum E) m))"
proof -
  let ?fs = "fold (model_files E bd gbs) ms fs"
  have "fold (model_files E bd gbs) (ms @ m # ms') fs (dockerfile_path E bd m)
          = fold (model_files E bd gbs) ms' (model_files E bd gbs m ?fs) (dockerfile_path E bd m)"
    by simp
  also have "\<dots> = model_files E bd gbs m ?fs (dockerfile_path E bd m)"
  proof (rule fold_model_files_frame)
    fix m' assume "m' \<in> set ms'"
    from assms [OF this]
    show "dockerfile_path E bd m \<noteq> dockerfile_path E bd m'
          \<and> dockerfile_path E bd m \<noteq> cloudbuild_path E bd m'
          \<and> (gbs \<longrightarrow> dockerfile_path E bd m \<noteq> build_script_path E bd m')"
      by (simp add: dockerfile_path_eq dockerfile_ne_cloudbuild dockerfile_ne_build_script)
  qed
  finally show "map_option content (fold (model_files E bd gbs) (ms @ m # ms') fs (dockerfile_path E bd m))
           = Some (render_dockerfile m [])"
    by (simp add: model_files_dockerfile)
  have "fold (model_files E bd gbs) (ms @ m # ms') fs (cloudbuild_path E bd m)
          = fold (model_files E bd gbs) ms' (model_files E bd gbs m ?fs) (cloudbuild_path E bd m)"
    by simp
  also have "\<dots> = model_files E bd gbs m ?fs (cloudbuild_path E bd m)"
  proof (rule fold_model_files_frame)
    fix m' assume "m' \<in> set ms'"
    from assms [OF this] dockerfile_ne_cloudbuild [of E bd m' m]
    show "cloudbuild_path E bd m \<noteq> dockerfile_path E bd m'
          \<and> cloudbuild_path E bd m \<noteq> cloudbuild_path E bd m'
          \<and> (gbs \<longrightarrow> cloudbuild_path E bd m \<noteq> build_script_path E bd m')"
      by (simp add: cloudbuild_path_eq cloudbuild_ne_build_script)
  qed
  finally show "map_option content (fold (model_files E bd gbs) (ms @ m # ms') fs (cloudbuild_path E bd m))
           = Some (render_cloudbuild (get_model_id (uni_alnum E) m))"
    by (simp add: model_files_cloudbuild)
qed

lemma generate_files_last:
  assumes ok: "generate_files E (ms @ m # ms') bd gbs w = (Inr u, w')"
    and last: "\<And>m'. m' \<in> set ms' \<Longrightarrow> get_model_id (uni_alnum E) m' \<noteq> get_model_id (uni_alnum E) m"
  shows "map_option content (files w' (dockerfile_path E bd m)) = Some (render_dockerfile m [])"
    and "map_option content (files w' (cloudbuild_path E bd m))
           = Some (render_cloudbuild (get_model_id (uni_alnum E) m))"
proof -
  have F: "files w' p = fold (model_files E bd gbs) (ms @ m # ms') (files w) p"
    if "p \<noteq> build_all_path bd" for p
    using that unfolding generate_files_ok(1) [OF ok] by (simp add: put_script_def)
  show "map_option content (files w' (dockerfile_path E bd m)) = Some (render_dockerfile m [])"
    unfolding F [OF dockerfile_ne_build_all]
    by (rule fold_model_files_last [OF last])
  show "map_option content (files w' (cloudbuild_path E bd m))
           = Some (render_cloudbuild (get_model_id (uni_alnum E) m))"
    unfolding F [OF cloudbuild_ne_build_all]
    by (rule fold_model_files_last [OF last])
qed

text \<open>
  C3. The tokens of \<open>gemma:2b\<close> and \<open>llama3.1\<close> are \<open>gemma-2b\<close> and \<open>llama3-1\<close>, and a
  run of \<open>generate_files\<close> on the two that completes leaves the rendered build file of
  each in \<open>Dockerfile-gemma-2b\<close> and \<open>Dockerfile-llama3-1\<close>, and the rendered build
  configuration of each in \<open>gemma-2b-cloudbuild.yaml\<close> and \<open>llama3-1-cloudbuild.yaml\<close>,
  in the build directory.
\<close>

theorem sanitizer_examples:
  "get_model_id U (py ''gemma:2b'') = py ''gemma-2b''
   \<and> get_model_id U (py ''llama3.1'') = py ''llama3-1''
   \<and> (generate_files E [py ''gemma:2b'', py ''llama3.1''] build_dir gbs w = (Inr u, w') \<longrightarrow>
        map_option content (files w' (path_join build_dir (py ''Dockerfile-gemma-2b'')))
          = Some (render_dockerfile (py ''gemma:2b'') [])
      \<and> map_option content (files w' (path_join build_dir (py ''gemma-2b-cloudbuild.yaml'')))
          = Some (render_cloudbuild (py ''gemma-2b''))
      \<and> map_option content (files w' (path_join build_dir (py ''Dockerfile-llama3-1'')))
          = Some (render_dockerfile (py ''llama3.1'') [])
      \<and> map_option content (files w' (path_join build_dir (py ''llama3-1-cloudbuild.yaml'')))
          = Some (render_cloudbuild (py ''llama3-1'')))"
proof -
  have g: "get_model_id U (py ''gemma:2b'') = py ''gemma-2b''" for U
    by (simp add: get_model_id_map py_def isalnum_def hyphen_def)
  have l: "get_model_id U (py ''llama3.1'') = py ''llama3-1''" for U
    by (simp add: get_model_id_map py_def isalnum_def hyphen_def)
  have ne: "py ''llama3-1'' \<noteq> py ''gemma-2b''" by (simp add: py_def)
  have paths:
    "dockerfile_path E build_dir (py ''gemma:2b'') = path_join build_dir (py ''Dockerfile-gemma-2b'')"
    "cloudbuild_path E build_dir (py ''gemma:2b'') = path_join build_dir (py ''gemma-2b-cloudbuild.yaml'')"
    "dockerfile_path E build_dir (py ''llama3.1'') = path_join build_dir (py ''Dockerfile-llama3-1'')"
    "cloudbuild_path E build_dir (py ''llama3.1'') = path_join build_dir (py ''llama3-1-cloudbuild.yaml'')"
    by (simp_all add: dockerfile_path_def cloudbuild_path_def g l) (simp_all add: py_def)
  have "map_option content (files w' (path_join build_dir (py ''Dockerfile-gemma-2b'')))
          = Some (render_dockerfile (py ''gemma:2b'') [])
      \<and> map_option content (files w' (path_join build_dir (py ''gemma-2b-cloudbuild.yaml'')))
          = Some (render_cloudbuild (py ''gemma-2b''))
      \<and> map_option content (files w' (path_join build_dir (py ''Dockerfile-llama3-1'')))
          = Some (render_dockerfile (py ''llama3.1'') [])
      \<and> map_option content (files w' (path_join build_dir (py ''llama3-1-cloudbuild.yaml'')))
          = Some (render_cloudbuild (py ''llama3-1''))"
    if ok: "generate_files E [py ''gemma:2b'', py ''llama3.1''] build_dir gbs w = (Inr u, w')"
  proof -
    from ok have ok1: "generate_files E ([] @ py ''gemma:2b'' # [py ''llama3.1'']) build_dir gbs w = (Inr u, w')"
      and ok2: "generate_files E ([py ''gemma:2b''] @ py ''llama3.1'' # []) build_dir gbs w = (Inr u, w')"
      by simp_all
    have "map_option content (files w' (dockerfile_path E build_dir (py ''gemma:2b'')))
            = Some (render_dockerfile (py ''gemma:2b'') [])"
      "map_option content (files w' (cloudbuild_path E build_dir (py ''gemma:2b'')))
            = Some (render_cloudbuild (get_model_id (uni_alnum E) (py ''gemma:2b'')))"
      by (rule generate_files_last [OF ok1]; simp add: g l ne)+
    moreover have "map_option content (files w' (dockerfile_path E build_dir (py ''llama3.1'')))
            = Some (render_dockerfile (py ''llama3.1'') [])"
      "map_option content (files w' (cloudbuild_path E build_dir (py ''llama3.1'')))
            = Some (render_cloudbuild (get_model_id (uni_alnum E) (py ''llama3.1'')))"
      by (rule generate_files_last [OF ok2]; simp)+
    ultimately show ?thesis by (simp add: paths g l)
  qed
  with g l show ?thesis by blast
qed

theorem sanitizer_examples_witness:
  "fst (generate_files quiet_env [py ''gemma:2b'', py ''llama3.1''] (py ''./build'') True empty_world) = Inr ()
   \<and> map_option content
        (files (snd (generate_files quiet_env [py ''gemma:2b'', py ''llama3.1''] (py ''./build'') True empty_world))
           (py ''./build/Dockerfile-gemma-2b''))
      = Some (render_dockerfile (py ''gemma:2b'') [])
   \<and> map_option content
        (files (snd (generate_files quiet_env [py ''gemma:2b'', py ''llama3.1''] (py ''./build'') True empty_world))
           (py ''./build/llama3-1-cloudbuild.yaml''))
      = Some (render_cloudbuild (py ''llama3-1''))"
proof -
  obtain w' where
    ok: "generate_files quiet_env [py ''gemma:2b'', py ''llama3.1''] (py ''./build'') True empty_world = (Inr (), w')"
    using generate_files_quiet [of quiet_env] quiet_env_quiet quiet_env_encodable by blast
  have j: "path_join (py ''./build'') (py ''Dockerfile-gemma-2b'') = py ''./build/Dockerfile-gemma-2b''"
    "path_join (py ''./build'') (py ''llama3-1-cloudbuild.yaml'') = py ''./build/llama3-1-cloudbuild.yaml''"
    by (simp_all add: path_join_def py_def slash_def)
  from sanitizer_examples [of "uni_alnum quiet_env" quiet_env "py ''./build''" True empty_world "()" w'] ok
  show ?thesis by (simp add: j)
qed

lemma generate_files_frame:
  assumes ok: "generate_files E ms bd gbs w = (Inr u, w')"
    and "\<And>m. m \<in> set ms \<Longrightarrow> p \<noteq> dockerfile_path E bd m \<and> p \<noteq> cloudbuild_path E bd m
            \<and> (gbs \<longrightarrow> p \<noteq> build_script_path E bd m)"
    and "gbs \<and> ms \<noteq> [] \<Longrightarrow> p \<noteq> build_all_path bd"
  shows "files w' p = files w p"
proof -
  have "files w' p = fold (model_files E bd gbs) ms (files w) p"
    unfolding generate_files_ok(1) [OF ok] using assms(3) by (simp add: put_script_def)
  also have "\<dots> = files w p"
    by (rule fold_model_files_frame) (rule assms(2))
  finally show ?thesis .
qed

text \<open>
  C4. A run of \<open>generate_files\<close> that completes creates or rewrites, for every model
  with token \<open>t\<close>, the files \<open>Dockerfile-t\<close> and \<open>t-cloudbuild.yaml\<close> and, when scripts
  are generated, \<open>build-t.sh\<close>, and the umbrella script \<open>build-all.sh\<close>; it touches no
  other file. Each of these names is free of \<open>/\<close> and is joined to the build directory
  as it is, so the file lies directly in the build directory.
\<close>

theorem generated_file_names:
  assumes ok: "generate_files E models build_dir gbs w = (Inr u, w')"
  shows
    "(let generated =
        (\<Union>model\<in>set models.
            {path_join build_dir (py ''Dockerfile-'' @ get_model_id (uni_alnum E) model),
             path_join build_dir (get_model_id (uni_alnum E) model @ py ''-cloudbuild.yaml'')}
            \<union> (if gbs
               then {path_join build_dir (py ''build-'' @ get_model_id (uni_alnum E) model @ py ''.sh'')}
               else {}))
        \<union> (if gbs \<and> models \<noteq> [] then {path_join build_dir (py ''build-all.sh'')} else {})
      in dom (files w') = dom (files w) \<union> generated
         \<and> (\<forall>p. p \<notin> generated \<longrightarrow> files w' p = files w p))
     \<and> (\<forall>name \<in> {py ''Dockerfile-'' @ get_model_id (uni_alnum E) model,
                    get_model_id (uni_alnum E) model @ py ''-cloudbuild.yaml'',
                    py ''build-'' @ get_model_id (uni_alnum E) model @ py ''.sh'',
                    py ''build-all.sh''}.
          slash \<notin> set name
          \<and> path_join build_dir name =
              (if build_dir = [] \<or> last build_dir = slash then build_dir @ name
               else build_dir @ slash # name))"
proof -
  define generated where "generated =
        (\<Union>model\<in>set models.
            {path_join build_dir (py ''Dockerfile-'' @ get_model_id (uni_alnum E) model),
             path_join build_dir (get_model_id (uni_alnum E) model @ py ''-cloudbuild.yaml'')}
            \<union> (if gbs
               then {path_join build_dir (py ''build-'' @ get_model_id (uni_alnum E) model @ py ''.sh'')}
               else {}))
        \<union> (if gbs \<and> models \<noteq> [] then {path_join build_dir (py ''build-all.sh'')} else {})"
  have g: "generated =
        (\<Union>model\<in>set models.
            {dockerfile_path E build_dir model, cloudbuild_path E build_dir model}
            \<union> (if gbs then {build_script_path E build_dir model} else {}))
        \<union> (if gbs \<and> models \<noteq> [] then {build_all_path build_dir} else {})"
    unfolding generated_def dockerfile_path_def cloudbuild_path_def build_script_path_def
      build_all_path_def ..
  have "dom (files w') =
       dom (fold (model_files E build_dir gbs) models (files w))
       \<union> (if gbs \<and> models \<noteq> [] then {build_all_path build_dir} else {})"
    unfolding generate_files_ok(1) [OF ok] by (auto simp: put_script_def)
  then have d: "dom (files w') = dom (files w) \<union> generated"
    unfolding dom_fold_model_files g by auto
  have f: "files w' p = files w p" if "p \<notin> generated" for p
    by (rule generate_files_frame [OF ok]) (use that in \<open>auto simp: g\<close>)
  have s: "slash \<notin> set (py ''Dockerfile-'' @ get_model_id (uni_alnum E) model)"
    "slash \<notin> set (get_model_id (uni_alnum E) model @ py ''-cloudbuild.yaml'')"
    "slash \<notin> set (py ''build-'' @ get_model_id (uni_alnum E) model @ py ''.sh'')"
    "slash \<notin> set (py ''build-all.sh'')"
    using token_no_slash [of "uni_alnum E" model]
    by (simp_all add: py_def) (simp_all add: slash_def)
  have n: "\<forall>name \<in> {py ''Dockerfile-'' @ get_model_id (uni_alnum E) model,
                    get_model_id (uni_alnum E) model @ py ''-cloudbuild.yaml'',
                    py ''build-'' @ get_model_id (uni_alnum E) model @ py ''.sh'',
                    py ''build-all.sh''}.
          slash \<notin> set name
          \<and> path_join build_dir name =
              (if build_dir = [] \<or> last build_dir = slash then build_dir @ name
               else build_dir @ slash # name)"
    using s
    by (simp add: path_join_relative dockerfile_name_rel cloudbuild_name_rel
        build_script_name_rel build_all_name_rel)
  from d f n show ?thesis
    unfolding Let_def generated_def [symmetric] by blast
qed

theorem generated_file_names_witness:
  "fst (generate_files quiet_env [py ''qwen3:32b''] (py ''./build'') True empty_world) = Inr ()
   \<and> dom (files (snd (generate_files quiet_env [py ''qwen3:32b''] (py ''./build'') True empty_world)))
       = {py ''./build/Dockerfile-qwen3-32b'', py ''./build/qwen3-32b-cloudbuild.yaml'',
          py ''./build/build-qwen3-32b.sh'', py ''./build/build-all.sh''}"
proof -
  obtain w' where
    ok: "generate_files quiet_env [py ''qwen3:32b''] (py ''./build'') True empty_world = (Inr (), w')"
    using generate_files_quiet [of quiet_env] quiet_env_quiet quiet_env_encodable by blast
  from generated_file_names [OF ok, of "py ''qwen3:32b''"]
  have "dom (files w') = dom (files empty_world)
       \<union> ((\<Union>model\<in>set [py ''qwen3:32b''].
            {path_join (py ''./build'') (py ''Dockerfile-'' @ get_model_id (uni_alnum quiet_env) model),
             path_join (py ''./build'') (get_model_id (uni_alnum quiet_env) model @ py ''-cloudbuild.yaml'')}
            \<union> {path_join (py ''./build'') (py ''build-'' @ get_model_id (uni_alnum quiet_env) model @ py ''.sh'')})
        \<union> {path_join (py ''./build'') (py ''build-all.sh'')})"
    by (simp add: Let_def)
  then
  have "dom (files w')
       = {py ''./build/Dockerfile-qwen3-32b'', py ''./build/qwen3-32b-cloudbuild.yaml'',
          py ''./build/build-qwen3-32b.sh'', py ''./build/build-all.sh''}"
    by (simp add: path_join_def py_def slash_def empty_world_def get_model_id_map isalnum_def
        hyphen_def insert_commute)
  with ok show ?thesis by simp
qed

lemma render_dockerfile_inject:
  "render_dockerfile m [] = render_dockerfile m' [] \<longleftrightarrow> m = m'"
  by (simp add: render_dockerfile_def)

text \<open>
  C5. The sanitizer is not injective: \<open>a:b\<close> and \<open>a.b\<close> are distinct and have the same
  token. Two models with the same token have the same three artifact paths, and a
  completed run on the two leaves the build file of the second under the common name:
  the build file of the first is gone.
\<close>

theorem token_collision_overwrites:
  "py ''a:b'' \<noteq> py ''a.b''
   \<and> get_model_id U (py ''a:b'') = get_model_id U (py ''a.b'')
   \<and> (get_model_id (uni_alnum E) m1 = get_model_id (uni_alnum E) m2 \<longrightarrow>
        dockerfile_path E build_dir m1 = dockerfile_path E build_dir m2
        \<and> cloudbuild_path E build_dir m1 = cloudbuild_path E build_dir m2
        \<and> build_script_path E build_dir m1 = build_script_path E build_dir m2
        \<and> (m1 \<noteq> m2 \<and> generate_files E [m1, m2] build_dir gbs w = (Inr u, w') \<longrightarrow>
             map_option content (files w' (dockerfile_path E build_dir m1))
               = Some (render_dockerfile m2 [])
             \<and> render_dockerfile m2 [] \<noteq> render_dockerfile m1 []))"
proof -
  have a: "py ''a:b'' \<noteq> py ''a.b''" by (simp add: py_def)
  have b: "get_model_id U (py ''a:b'') = get_model_id U (py ''a.b'')"
    by (simp add: get_model_id_map py_def isalnum_def)
  have c: "map_option content (files w' (dockerfile_path E build_dir m1))
               = Some (render_dockerfile m2 [])
             \<and> render_dockerfile m2 [] \<noteq> render_dockerfile m1 []"
    if t: "get_model_id (uni_alnum E) m1 = get_model_id (uni_alnum E) m2"
      and ne: "m1 \<noteq> m2"
      and ok: "generate_files E [m1, m2] build_dir gbs w = (Inr u, w')"
  proof -
    from ok have ok': "generate_files E ([m1] @ m2 # []) build_dir gbs w = (Inr u, w')" by simp
    have "map_option content (files w' (dockerfile_path E build_dir m2))
               = Some (render_dockerfile m2 [])"
      by (rule generate_files_last [OF ok']) simp
    moreover from t have "dockerfile_path E build_dir m1 = dockerfile_path E build_dir m2"
      by (simp add: dockerfile_path_eq)
    ultimately show ?thesis using ne by (simp add: render_dockerfile_inject)
  qed
  from a b c show ?thesis
    by (simp add: dockerfile_path_eq cloudbuild_path_eq build_script_path_eq)
qed

theorem token_collision_overwrites_witness:
  "get_model_id (uni_alnum quiet_env) (py ''a:b'') = get_model_id (uni_alnum quiet_env) (py ''a.b'')
   \<and> py ''a:b'' \<noteq> py ''a.b''
   \<and> fst (generate_files quiet_env [py ''a:b'', py ''a.b''] (py ''build'') True empty_world) = Inr ()
   \<and> map_option content
        (files (snd (generate_files quiet_env [py ''a:b'', py ''a.b''] (py ''build'') True empty_world))
           (py ''build/Dockerfile-a-b''))
       = Some (render_dockerfile (py ''a.b'') [])
   \<and> render_dockerfile (py ''a.b'') [] \<noteq> render_dockerfile (py ''a:b'') []"
proof -
  obtain w' where
    ok: "generate_files quiet_env [py ''a:b'', py ''a.b''] (py ''build'') True empty_world = (Inr (), w')"
    using generate_files_quiet [of quiet_env] quiet_env_quiet quiet_env_encodable by blast
  have p: "dockerfile_path quiet_env (py ''build'') (py ''a:b'') = py ''build/Dockerfile-a-b''"
    by (simp add: dockerfile_path_def path_join_def get_model_id_map py_def isalnum_def
        hyphen_def slash_def)
  note K = token_collision_overwrites [of "uni_alnum quiet_env" quiet_env "py ''a:b''" "py ''a.b''"
      "py ''build''" True empty_world "()" w']
  from K have a: "py ''a:b'' \<noteq> py ''a.b''"
    and t: "get_model_id (uni_alnum quiet_env) (py ''a:b'') = get_model_id (uni_alnum quiet_env) (py ''a.b'')"
    by blast+
  from K t a ok have "map_option content (files w' (dockerfile_path quiet_env (py ''build'') (py ''a:b'')))
               = Some (render_dockerfile (py ''a.b'') [])
             \<and> render_dockerfile (py ''a.b'') [] \<noteq> render_dockerfile (py ''a:b'') []"
    by blast
  with a t ok show ?thesis by (simp add: p)
qed

section \<open>Switching the scripts off\<close>

lemma dockerfile_name_not_sh:
  assumes "period \<notin> set t"
  shows "x @ py ''Dockerfile-'' @ t \<noteq> q @ py ''.sh''"
proof
  assume "x @ py ''Dockerfile-'' @ t = q @ py ''.sh''"
  then have "rev (x @ py ''Dockerfile-'' @ t) = rev (q @ py ''.sh'')" by simp
  then have e: "rev t @ rev (py ''Dockerfile-'') @ rev x = rev (py ''.sh'') @ rev q" by simp
  from assms have np: "period \<notin> set (rev t)" by simp
  show False
  proof (cases "rev t")
    case Nil
    with e show False by (simp add: py_def)
  next
    case c1: (Cons a r1)
    show False
    proof (cases r1)
      case Nil
      with e c1 show False by (simp add: py_def)
    next
      case c2: (Cons b r2)
      show False
      proof (cases r2)
        case Nil
        with e c1 c2 show False by (simp add: py_def)
      next
        case c3: (Cons c r3)
        with e c1 c2 have "c = period" by (simp add: py_def period_def)
        with np c1 c2 c3 show False by simp
      qed
    qed
  qed
qed

lemma dockerfile_path_not_sh: "dockerfile_path E bd m \<noteq> q @ py ''.sh''"
proof -
  have "dockerfile_path E bd m = (if bd = [] \<or> last bd = slash then bd else bd @ [slash])
          @ py ''Dockerfile-'' @ get_model_id (uni_alnum E) m"
    unfolding dockerfile_path_def by (simp add: path_join_relative dockerfile_name_rel)
  then show ?thesis
    using dockerfile_name_not_sh [OF token_no_period] by simp
qed

lemma cloudbuild_path_not_sh: "cloudbuild_path E bd m \<noteq> q @ py ''.sh''"
proof
  assume a: "cloudbuild_path E bd m = q @ py ''.sh''"
  have "cloudbuild_path E bd m = (if bd = [] \<or> last bd = slash then bd else bd @ [slash])
          @ get_model_id (uni_alnum E) m @ py ''-cloudbuild.yaml''"
    unfolding cloudbuild_path_def by (simp add: path_join_relative cloudbuild_name_rel)
  with a have "last ((if bd = [] \<or> last bd = slash then bd else bd @ [slash])
          @ get_model_id (uni_alnum E) m @ py ''-cloudbuild.yaml'') = last (q @ py ''.sh'')"
    by simp
  then show False by (simp add: py_def)
qed


lemma generate_files_flag:
  assumes off: "generate_files E ms bd False w = (Inr u, w')"
    and on: "generate_files E ms bd True w = (Inr u2, w2)"
    and p: "\<And>m. m \<in> set ms \<Longrightarrow> p \<noteq> build_script_path E bd m" "p \<noteq> build_all_path bd"
  shows "files w2 p = files w' p"
proof -
  have "files w2 p = fold (model_files E bd True) ms (files w) p"
    unfolding generate_files_ok(1) [OF on] using p(2) by (simp add: put_script_def)
  also have "\<dots> = fold (model_files E bd False) ms (files w) p"
    by (rule fold_model_files_flag) (simp_all add: p(1))
  also have "\<dots> = files w' p"
    unfolding generate_files_ok(1) [OF off] by simp
  finally show ?thesis .
qed

text \<open>
  C7. A completed run with script generation switched off touches nothing but the
  build file and the build configuration of each model: no path that ends in \<open>.sh\<close>
  changes, neither a per-model script nor the umbrella script. The build file and the
  build configuration of every model are there, and they are the very files (content
  and mode) that a completed run with scripts switched on leaves from the same world; the
  printed lines are the same too.
\<close>

theorem no_build_scripts_frame:
  assumes off: "generate_files E models build_dir False w = (Inr u, w')"
  shows
    "(\<forall>p. (\<forall>model\<in>set models. p \<noteq> dockerfile_path E build_dir model
                                \<and> p \<noteq> cloudbuild_path E build_dir model)
          \<longrightarrow> files w' p = files w p)
     \<and> (\<forall>q. files w' (q @ py ''.sh'') = files w (q @ py ''.sh''))
     \<and> (\<forall>model. files w' (build_script_path E build_dir model)
                   = files w (build_script_path E build_dir model))
     \<and> files w' (build_all_path build_dir) = files w (build_all_path build_dir)
     \<and> (\<forall>model\<in>set models.
          map_option content (files w' (cloudbuild_path E build_dir model))
            = Some (render_cloudbuild (get_model_id (uni_alnum E) model))
          \<and> dockerfile_path E build_dir model \<in> dom (files w'))
     \<and> (\<forall>u2 w2. generate_files E models build_dir True w = (Inr u2, w2) \<longrightarrow>
          stdout w2 = stdout w'
          \<and> (\<forall>model\<in>set models.
                files w2 (dockerfile_path E build_dir model)
                  = files w' (dockerfile_path E build_dir model)
                \<and> files w2 (cloudbuild_path E build_dir model)
                  = files w' (cloudbuild_path E build_dir model)))"
proof -
  have frame: "files w' p = files w p"
    if "\<forall>model\<in>set models. p \<noteq> dockerfile_path E build_dir model
                                \<and> p \<noteq> cloudbuild_path E build_dir model" for p
    by (rule generate_files_frame [OF off]) (use that in simp_all)
  have sh: "files w' (q @ py ''.sh'') = files w (q @ py ''.sh'')" for q
    by (rule frame) (metis dockerfile_path_not_sh cloudbuild_path_not_sh)
  have script: "files w' (build_script_path E build_dir model)
                   = files w (build_script_path E build_dir model)" for model
    by (rule frame) (metis dockerfile_ne_build_script cloudbuild_ne_build_script)
  have umbrella: "files w' (build_all_path build_dir) = files w (build_all_path build_dir)"
    by (rule frame) (metis dockerfile_ne_build_all cloudbuild_ne_build_all)
  have there: "map_option content (files w' (cloudbuild_path E build_dir model))
            = Some (render_cloudbuild (get_model_id (uni_alnum E) model))
          \<and> dockerfile_path E build_dir model \<in> dom (files w')"
    if "model \<in> set models" for model
  proof -
    have "dom (files w') = dom (fold (model_files E build_dir False) models (files w))"
      unfolding generate_files_ok(1) [OF off] by simp
    with that have d: "dockerfile_path E build_dir model \<in> dom (files w')"
      unfolding dom_fold_model_files by auto
    have "files w' (cloudbuild_path E build_dir model)
            = fold (model_files E build_dir False) models (files w) (cloudbuild_path E build_dir model)"
      unfolding generate_files_ok(1) [OF off] by simp
    moreover have "map_option content
        (fold (model_files E build_dir False) ms fs (cloudbuild_path E build_dir model))
            = Some (render_cloudbuild (get_model_id (uni_alnum E) model))"
      if "model \<in> set ms" for ms fs
      using that
    proof (induction ms arbitrary: fs rule: rev_induct)
      case Nil
      then show ?case by simp
    next
      case (snoc m ms)
      show ?case
      proof (cases "cloudbuild_path E build_dir m = cloudbuild_path E build_dir model")
        case True
        then have "get_model_id (uni_alnum E) m = get_model_id (uni_alnum E) model"
          by (simp add: cloudbuild_path_eq)
        with True model_files_cloudbuild [of E build_dir False m] show ?thesis by simp
      next
        case False
        then have "m \<noteq> model" by auto
        with snoc.prems have "model \<in> set ms" by simp
        from snoc.IH [OF this] False dockerfile_ne_cloudbuild [of E build_dir m model]
        show ?thesis by (simp add: model_files_frame)
      qed
    qed
    ultimately show ?thesis using that d by simp
  qed
  have same: "stdout w2 = stdout w'
          \<and> (\<forall>model\<in>set models.
                files w2 (dockerfile_path E build_dir model)
                  = files w' (dockerfile_path E build_dir model)
                \<and> files w2 (cloudbuild_path E build_dir model)
                  = files w' (cloudbuild_path E build_dir model))"
    if on: "generate_files E models build_dir True w = (Inr u2, w2)" for u2 w2
  proof -
    have "stdout w2 = stdout w'"
      using generate_files_ok(2) [OF on] generate_files_ok(2) [OF off] by simp
    moreover have "files w2 (dockerfile_path E build_dir model)
                  = files w' (dockerfile_path E build_dir model)" for model
      by (rule generate_files_flag [OF off on])
        (metis dockerfile_ne_build_script, metis dockerfile_ne_build_all)
    moreover have "files w2 (cloudbuild_path E build_dir model)
                  = files w' (cloudbuild_path E build_dir model)" for model
      by (rule generate_files_flag [OF off on])
        (metis cloudbuild_ne_build_script, metis cloudbuild_ne_build_all)
    ultimately show ?thesis by simp
  qed
  from frame sh script umbrella there same show ?thesis by blast
qed

theorem no_build_scripts_frame_witness:
  "fst (generate_files quiet_env [py ''gemma:2b''] (py ''./build'') False empty_world) = Inr ()
   \<and> fst (generate_files quiet_env [py ''gemma:2b''] (py ''./build'') True empty_world) = Inr ()
   \<and> files (snd (generate_files quiet_env [py ''gemma:2b''] (py ''./build'') False empty_world))
        (py ''./build/build-gemma-2b.sh'') = None
   \<and> files (snd (generate_files quiet_env [py ''gemma:2b''] (py ''./build'') False empty_world))
        (py ''./build/build-all.sh'') = None
   \<and> files (snd (generate_files quiet_env [py ''gemma:2b''] (py ''./build'') True empty_world))
        (py ''./build/Dockerfile-gemma-2b'')
      = files (snd (generate_files quiet_env [py ''gemma:2b''] (py ''./build'') False empty_world))
        (py ''./build/Dockerfile-gemma-2b'')
   \<and> map_option content
        (files (snd (generate_files quiet_env [py ''gemma:2b''] (py ''./build'') False empty_world))
          (py ''./build/gemma-2b-cloudbuild.yaml''))
      = Some (render_cloudbuild (py ''gemma-2b''))"
proof -
  obtain w' where
    off: "generate_files quiet_env [py ''gemma:2b''] (py ''./build'') False empty_world = (Inr (), w')"
    using generate_files_quiet [of quiet_env] quiet_env_quiet quiet_env_encodable by blast
  obtain w2 where
    on: "generate_files quiet_env [py ''gemma:2b''] (py ''./build'') True empty_world = (Inr (), w2)"
    using generate_files_quiet [of quiet_env] quiet_env_quiet quiet_env_encodable by blast
  have t: "get_model_id (uni_alnum quiet_env) (py ''gemma:2b'') = py ''gemma-2b''"
    by (simp add: get_model_id_map py_def isalnum_def hyphen_def)
  have p: "dockerfile_path quiet_env (py ''./build'') (py ''gemma:2b'') = py ''./build/Dockerfile-gemma-2b''"
    "cloudbuild_path quiet_env (py ''./build'') (py ''gemma:2b'') = py ''./build/gemma-2b-cloudbuild.yaml''"
    "build_script_path quiet_env (py ''./build'') (py ''gemma:2b'') = py ''./build/build-gemma-2b.sh''"
    "build_all_path (py ''./build'') = py ''./build/build-all.sh''"
    by (simp_all add: dockerfile_path_def cloudbuild_path_def build_script_path_def
        build_all_path_def path_join_def get_model_id_map py_def isalnum_def hyphen_def slash_def)
  note K = no_build_scripts_frame [OF off]
  from K have "files w' (build_script_path quiet_env (py ''./build'') (py ''gemma:2b''))
      = files empty_world (build_script_path quiet_env (py ''./build'') (py ''gemma:2b''))"
    by blast
  then have a: "files w' (py ''./build/build-gemma-2b.sh'') = None"
    by (simp add: p empty_world_def)
  from K have "files w' (build_all_path (py ''./build'')) = files empty_world (build_all_path (py ''./build''))"
    by blast
  then have b: "files w' (py ''./build/build-all.sh'') = None"
    by (simp add: p empty_world_def)
  from K on have "\<forall>model\<in>set [py ''gemma:2b''].
      files w2 (dockerfile_path quiet_env (py ''./build'') model)
        = files w' (dockerfile_path quiet_env (py ''./build'') model)"
    by blast
  then have c: "files w2 (py ''./build/Dockerfile-gemma-2b'') = files w' (py ''./build/Dockerfile-gemma-2b'')"
    by (simp add: p)
  from K have "\<forall>model\<in>set [py ''gemma:2b''].
      map_option content (files w' (cloudbuild_path quiet_env (py ''./build'') model))
        = Some (render_cloudbuild (get_model_id (uni_alnum quiet_env) model))"
    by blast
  then have d: "map_option content (files w' (py ''./build/gemma-2b-cloudbuild.yaml''))
      = Some (render_cloudbuild (py ''gemma-2b''))"
    by (simp add: p t)
  from off on a b c d show ?thesis by simp
qed

section \<open>The umbrella script\<close>

lemma split_not_Nil: "split sep s \<noteq> []"
  by (induction s) (auto split: list.splits)

lemma parse_models_not_Nil: "parse_models E s \<noteq> []"
  by (simp add: parse_models_def split_not_Nil)

text \<open>
  C9, as the code has it. With script generation switched on and at least one model in
  the list, a completed run leaves \<open>build-all.sh\<close> in the build directory with mode
  \<open>0o755\<close>; its text is the header followed by one line for each model, in the order of
  the list, that line being the path of the model's build script. The list that \<open>main\<close>
  parses is never empty. (With an empty list the loop collects no script and the
  umbrella script is not written.)
\<close>

theorem build_all_script:
  assumes ok: "generate_files E models build_dir True w = (Inr u, w')"
    and ne: "models \<noteq> []"
  shows
    \<open>files w' (path_join build_dir (py ''build-all.sh'')) =
       Some \<lparr>content =
               py ''#!/bin/bash\<newline>set -e\<newline>\<newline>''
               @ concat (map (\<lambda>model.
                   path_join build_dir (py ''build-'' @ get_model_id (uni_alnum E) model @ py ''.sh'')
                   @ py ''\<newline>'') models),
             mode = 493\<rparr>
     \<and> parse_models E models_str \<noteq> []\<close>
proof -
  have "files w' (build_all_path build_dir) =
          Some \<lparr>content = build_all_content (map (build_script_path E build_dir) models), mode = 493\<rparr>"
    unfolding generate_files_ok(1) [OF ok] using ne by (simp add: put_script_def)
  then show ?thesis
    by (simp add: build_all_path_def build_all_content_def build_all_writes_def
        build_script_path_def comp_def
        parse_models_not_Nil)
qed

theorem build_all_script_witness:
  \<open>parse_models quiet_env (py ''gemma:2b, llama3.1'') = [py ''gemma:2b'', py ''llama3.1'']
   \<and> fst (generate_files quiet_env [py ''gemma:2b'', py ''llama3.1''] (py ''./build'') True empty_world)
       = Inr ()
   \<and> files (snd (generate_files quiet_env [py ''gemma:2b'', py ''llama3.1''] (py ''./build'') True empty_world))
        (py ''./build/build-all.sh'')
       = Some \<lparr>content = py ''#!/bin/bash\<newline>set -e\<newline>\<newline>./build/build-gemma-2b.sh\<newline>./build/build-llama3-1.sh\<newline>'',
               mode = 493\<rparr>\<close>
proof -
  obtain w' where
    ok: "generate_files quiet_env [py ''gemma:2b'', py ''llama3.1''] (py ''./build'') True empty_world = (Inr (), w')"
    using generate_files_quiet [of quiet_env] quiet_env_quiet quiet_env_encodable by blast
  have ne: "[py ''gemma:2b'', py ''llama3.1''] \<noteq> []" by simp
  have p: "parse_models quiet_env (py ''gemma:2b, llama3.1'') = [py ''gemma:2b'', py ''llama3.1'']"
    by (simp add: parse_models_def strip_def isspace_def py_def comma_def quiet_env_def)
  from build_all_script [OF ok ne]
  have \<open>files w' (py ''./build/build-all.sh'')
       = Some \<lparr>content = py ''#!/bin/bash\<newline>set -e\<newline>\<newline>./build/build-gemma-2b.sh\<newline>./build/build-llama3-1.sh\<newline>'',
               mode = 493\<rparr>\<close>
    by (simp add: path_join_def get_model_id_map isalnum_def hyphen_def slash_def py_def)
  with ok p show ?thesis by simp
qed

theorem build_all_script_counterexample:
  "fst (generate_files quiet_env [] (py ''./build'') True empty_world) = Inr ()
   \<and> files (snd (generate_files quiet_env [] (py ''./build'') True empty_world))
        (path_join (py ''./build'') (py ''build-all.sh'')) = None"
  by (simp add: generate_files_def io_bind_def io_return_def makedirs_def quiet_env_def
      empty_world_def)

section \<open>Parsing the model list\<close>

lemma last_dropWhile: "dropWhile P xs \<noteq> [] \<Longrightarrow> last (dropWhile P xs) = last xs"
  by (induction xs) (auto split: if_splits)

lemma strip_ends:
  "strip S s = [] \<or> (\<not> isspace S (hd (strip S s)) \<and> \<not> isspace S (last (strip S s)))"
proof (cases "strip S s = []")
  case True
  then show ?thesis by simp
next
  case False
  let ?d = "dropWhile (isspace S) s"
  let ?e = "dropWhile (isspace S) (rev ?d)"
  from False have e: "?e \<noteq> []" by (simp add: strip_def)
  have d: "?d \<noteq> []"
  proof
    assume "?d = []"
    then have "?e = []" by (simp only: rev.simps dropWhile.simps)
    with e show False by simp
  qed
  have "last (strip S s) = hd ?e" using e by (simp add: strip_def last_rev)
  moreover have "\<not> isspace S (hd ?e)" using e by (rule hd_dropWhile)
  moreover have "hd (strip S s) = last ?e" using e by (simp add: strip_def hd_rev)
  moreover have "last ?e = last (rev ?d)" using e by (rule last_dropWhile)
  moreover have "last (rev ?d) = hd ?d" using d by (simp add: last_rev)
  moreover have "\<not> isspace S (hd ?d)" using d by (rule hd_dropWhile)
  ultimately show ?thesis by simp
qed

lemma strip_decomp:
  "\<exists>l r. s = l @ strip S s @ r \<and> list_all (isspace S) l \<and> list_all (isspace S) r"
proof -
  let ?l = "takeWhile (isspace S) s"
  let ?d = "dropWhile (isspace S) s"
  let ?r = "rev (takeWhile (isspace S) (rev ?d))"
  have "rev (takeWhile (isspace S) (rev ?d) @ dropWhile (isspace S) (rev ?d)) = ?d"
    by (simp only: takeWhile_dropWhile_id rev_rev_ident)
  then have "rev (dropWhile (isspace S) (rev ?d)) @ ?r = ?d"
    by (simp only: rev_append)
  then have "?d = strip S s @ ?r"
    unfolding strip_def by (rule sym)
  then have "s = ?l @ strip S s @ ?r" by (metis takeWhile_dropWhile_id)
  moreover have "list_all (isspace S) ?l" by (simp add: list_all_iff) (metis set_takeWhileD)
  moreover have "list_all (isspace S) ?r" by (simp add: list_all_iff) (metis set_takeWhileD)
  ultimately show ?thesis by blast
qed

text \<open>
  C10. Every identifier that \<open>main\<close> works on is a comma-separated piece of the model
  string with the whitespace at its two ends removed: it neither starts nor ends with
  whitespace, and the piece is the identifier with whitespace around it. \<open>main\<close> uses
  the model string through this list only, so two model strings with the same list
  give the same run; \<open>a, b\<close> and \<open>a,b\<close> both give the list of \<open>a\<close> and \<open>b\<close>.
\<close>

theorem parse_models_strips:
  "length (parse_models E s) = length (split comma s)
   \<and> (\<forall>i < length (parse_models E s).
        (parse_models E s ! i = []
           \<or> (\<not> isspace (uni_space E) (hd (parse_models E s ! i))
              \<and> \<not> isspace (uni_space E) (last (parse_models E s ! i))))
        \<and> (\<exists>l r. split comma s ! i = l @ parse_models E s ! i @ r
                 \<and> list_all (isspace (uni_space E)) l \<and> list_all (isspace (uni_space E)) r))
   \<and> (parse_models E s = parse_models E s' \<longrightarrow>
        main E s build_dir submit no_build_scripts w = main E s' build_dir submit no_build_scripts w)
   \<and> parse_models E (py ''a, b'') = [py ''a'', py ''b'']
   \<and> parse_models E (py ''a,b'') = [py ''a'', py ''b'']"
proof -
  have "parse_models E (py ''a, b'') = [py ''a'', py ''b'']"
    "parse_models E (py ''a,b'') = [py ''a'', py ''b'']"
    by (simp_all add: parse_models_def strip_def isspace_def py_def comma_def)
  moreover have "main E s build_dir submit no_build_scripts w = main E s' build_dir submit no_build_scripts w"
    if "parse_models E s = parse_models E s'"
    using that by (simp add: main_def)
  moreover have "length (parse_models E s) = length (split comma s)"
    by (simp add: parse_models_def)
  moreover have "\<forall>i < length (parse_models E s).
        (parse_models E s ! i = []
           \<or> (\<not> isspace (uni_space E) (hd (parse_models E s ! i))
              \<and> \<not> isspace (uni_space E) (last (parse_models E s ! i))))
        \<and> (\<exists>l r. split comma s ! i = l @ parse_models E s ! i @ r
                 \<and> list_all (isspace (uni_space E)) l \<and> list_all (isspace (uni_space E)) r)"
    using strip_ends strip_decomp by (simp add: parse_models_def)
  ultimately show ?thesis by blast
qed

theorem parse_models_strips_witness:
  "parse_models quiet_env (py ''a, b'') = parse_models quiet_env (py ''a,b'')
   \<and> main quiet_env (py ''a, b'') (py ''./build'') False False empty_world
     = main quiet_env (py ''a,b'') (py ''./build'') False False empty_world
   \<and> (1::nat) < length (parse_models quiet_env (py ''a, b''))
   \<and> split comma (py ''a, b'') ! 1 = py '' b''
   \<and> parse_models quiet_env (py ''a, b'') ! 1 = py ''b''"
proof -
  note K = parse_models_strips [of quiet_env "py ''a, b''" "py ''a,b''" "py ''./build''" False False
      empty_world]
  from K have e: "parse_models quiet_env (py ''a, b'') = parse_models quiet_env (py ''a,b'')"
    by simp
  with K have "main quiet_env (py ''a, b'') (py ''./build'') False False empty_world
     = main quiet_env (py ''a,b'') (py ''./build'') False False empty_world"
    by blast
  moreover from K have "parse_models quiet_env (py ''a, b'') = [py ''a'', py ''b'']" by blast
  moreover have "split comma (py ''a, b'') ! 1 = py '' b''"
    by (simp add: py_def comma_def)
  ultimately show ?thesis using e by simp
qed

section \<open>Filesystem errors\<close>

subsection \<open>The calls\<close>

lemma makedirs_fails:
  "fs_fails E v (Makedirs d) \<Longrightarrow> makedirs E d v = (Inl (OSError (Makedirs d)), v)"
  by (simp add: makedirs_def)

lemma with_open_w_open_fails:
  "fs_fails E v (OpenW p) \<Longrightarrow> with_open_w E p texts v = (Inl (OSError (OpenW p)), v)"
  by (simp add: with_open_w_def)

lemma with_open_w_close_fails:
  assumes "\<not> fs_fails E v (OpenW p)"
    and "v1 = set_file p [] (open_mode E (files v) p) v"
    and "write_all E texts [] = (err, buf)"
    and "fs_fails E v1 (WriteClose p buf)"
  shows "with_open_w E p texts v =
           (Inl (OSError (WriteClose p buf)),
            set_file p (take (flushed E v1 (WriteClose p buf)) buf) (open_mode E (files v) p) v1)"
  using assms by (simp add: with_open_w_def Let_def)

lemma with_open_w_encode_fails:
  assumes "\<not> fs_fails E v (OpenW p)"
    and "v1 = set_file p [] (open_mode E (files v) p) v"
    and "write_all E texts [] = (Some e, buf)"
    and "\<not> fs_fails E v1 (WriteClose p buf)"
  shows "with_open_w E p texts v = (Inl e, set_file p buf (open_mode E (files v) p) v1)"
  using assms by (simp add: with_open_w_def Let_def)

lemma chmod_fails:
  "fs_fails E v (Chmod p m) \<Longrightarrow> chmod E p m v = (Inl (OSError (Chmod p m)), v)"
  by (simp add: chmod_def split: option.splits)

lemma with_open_w_frame:
  assumes "with_open_w E p texts v = (r, v')"
  shows "stdout v' = stdout v \<and> invoked v' = invoked v
         \<and> (\<forall>q. q \<noteq> p \<longrightarrow> files v' q = files v q)"
proof -
  obtain err buf where wa: "write_all E texts [] = (err, buf)"
    by (cases "write_all E texts []")
  with assms show ?thesis
    by (auto simp: with_open_w_def set_file_def Let_def split: if_splits option.splits)
qed

lemma write_file_frame:
  assumes "write_file E p t v = (r, v')"
  shows "stdout v' = stdout v \<and> invoked v' = invoked v
         \<and> (\<forall>q. q \<noteq> p \<longrightarrow> files v' q = files v q)"
  using assms unfolding write_file_def by (rule with_open_w_frame)

lemma chmod_frame:
  assumes "chmod E p m v = (r, v')"
  shows "stdout v' = stdout v \<and> invoked v' = invoked v
         \<and> (\<forall>q. q \<noteq> p \<longrightarrow> files v' q = files v q)"
  using assms
  by (auto simp: chmod_def split: option.splits if_splits)

subsection \<open>The body of the loop\<close>

lemma gen_model_raise_points:
  assumes p: "print (py ''Generating files for model: '' @ model @ py '' (ID: ''
                     @ get_model_id (uni_alnum E) model @ py '')'') w1 = (Inr (), w0)"
  shows
    "write_file E (dockerfile_path E bd model) (render_dockerfile model []) w0 = (Inl e, w2)
       \<Longrightarrow> gen_model E bd gbs model sc w1 = (Inl e, w2)"
    and "write_file E (dockerfile_path E bd model) (render_dockerfile model []) w0 = (Inr (), wa)
       \<Longrightarrow> write_file E (cloudbuild_path E bd model)
             (render_cloudbuild (get_model_id (uni_alnum E) model)) wa = (Inl e, w2)
       \<Longrightarrow> gen_model E bd gbs model sc w1 = (Inl e, w2)"
    and "gbs
       \<Longrightarrow> write_file E (dockerfile_path E bd model) (render_dockerfile model []) w0 = (Inr (), wa)
       \<Longrightarrow> write_file E (cloudbuild_path E bd model)
             (render_cloudbuild (get_model_id (uni_alnum E) model)) wa = (Inr (), wb)
       \<Longrightarrow> write_file E (build_script_path E bd model)
             (render_build_script bd (get_model_id (uni_alnum E) model)) wb = (Inl e, w2)
       \<Longrightarrow> gen_model E bd gbs model sc w1 = (Inl e, w2)"
    and "gbs
       \<Longrightarrow> write_file E (dockerfile_path E bd model) (render_dockerfile model []) w0 = (Inr (), wa)
       \<Longrightarrow> write_file E (cloudbuild_path E bd model)
             (render_cloudbuild (get_model_id (uni_alnum E) model)) wa = (Inr (), wb)
       \<Longrightarrow> write_file E (build_script_path E bd model)
             (render_build_script bd (get_model_id (uni_alnum E) model)) wb = (Inr (), wc)
       \<Longrightarrow> chmod E (build_script_path E bd model) 493 wc = (Inl e, w2)
       \<Longrightarrow> gen_model E bd gbs model sc w1 = (Inl e, w2)"
  using p by (simp_all add: gen_model_def Let_def io_bind_def)

lemma gen_model_raises:
  assumes "gen_model E bd gbs m sc w = (Inl e, w')"
  shows "stdout w' = stdout w @ [generating_line E m] \<and> invoked w' = invoked w
         \<and> (\<forall>q. q \<notin> {dockerfile_path E bd m, cloudbuild_path E bd m, build_script_path E bd m}
               \<longrightarrow> files w' q = files w q)"
proof -
  let ?w0 = "w\<lparr>stdout := stdout w @ [generating_line E m]\<rparr>"
  let ?t = "get_model_id (uni_alnum E) m"
  obtain r1 w1 where d: "write_file E (dockerfile_path E bd m) (render_dockerfile m []) ?w0 = (r1, w1)"
    by (cases "write_file E (dockerfile_path E bd m) (render_dockerfile m []) ?w0")
  obtain r2 w2 where c: "write_file E (cloudbuild_path E bd m) (render_cloudbuild ?t) w1 = (r2, w2)"
    by (cases "write_file E (cloudbuild_path E bd m) (render_cloudbuild ?t) w1")
  obtain r3 w3 where s: "write_file E (build_script_path E bd m) (render_build_script bd ?t) w2 = (r3, w3)"
    by (cases "write_file E (build_script_path E bd m) (render_build_script bd ?t) w2")
  obtain r4 w4 where h: "chmod E (build_script_path E bd m) 493 w3 = (r4, w4)"
    by (cases "chmod E (build_script_path E bd m) 493 w3")
  note D = write_file_frame [OF d] and C = write_file_frame [OF c] and S = write_file_frame [OF s]
    and H = chmod_frame [OF h]
  from assms d c s h have "w' = w1 \<or> w' = w2 \<or> w' = w3 \<or> w' = w4"
    by (auto simp: gen_model_def Let_def io_bind_def io_return_def print_def generating_line_def
        split: sum.splits if_splits)
  then consider (a) "w' = w1" | (b) "w' = w2" | (c) "w' = w3" | (d) "w' = w4"
    by blast
  then show ?thesis
  proof cases
    case a
    with D show ?thesis by auto
  next
    case b
    with D C show ?thesis by auto
  next
    case c
    with D C S show ?thesis by auto
  next
    case d
    with D C S H show ?thesis by auto
  qed
qed

subsection \<open>The loop and the umbrella script\<close>

lemma gen_loop_append_raises:
  assumes "gen_loop E bd gbs ms sc w = (Inr sc1, w1)"
    and "gen_model E bd gbs m sc1 w1 = (Inl e, w2)"
  shows "gen_loop E bd gbs (ms @ m # rest) sc w = (Inl e, w2)"
  using assms
proof (induction ms arbitrary: sc w)
  case Nil
  then show ?case by (simp add: io_return_def io_bind_def)
next
  case (Cons a ms)
  from Cons.prems(1) obtain sc' w' where
    a: "gen_model E bd gbs a sc w = (Inr sc', w')" and
    l: "gen_loop E bd gbs ms sc' w' = (Inr sc1, w1)"
    by (auto simp: io_bind_Inr)
  from Cons.IH [OF l Cons.prems(2)] a show ?case by (simp add: io_bind_def)
qed

lemma generate_files_loop_raises:
  assumes "\<not> fs_fails E w (Makedirs bd)"
    and "gen_loop E bd gbs before [] w = (Inr sc, w1)"
    and "gen_model E bd gbs model sc w1 = (Inl e, w2)"
  shows "generate_files E (before @ model # rest) bd gbs w = (Inl e, w2)"
  using assms(1) gen_loop_append_raises [OF assms(2) assms(3), of rest]
  by (simp add: generate_files_def io_bind_def makedirs_def)

lemma generate_files_umbrella_raises:
  assumes "\<not> fs_fails E w (Makedirs bd)"
    and "gen_loop E bd gbs models [] w = (Inr sc, w1)"
    and "gbs" and "sc \<noteq> []"
  shows "with_open_w E (build_all_path bd) (build_all_writes sc) w1 = (Inl e, w2)
           \<Longrightarrow> generate_files E models bd gbs w = (Inl e, w2)"
    and "with_open_w E (build_all_path bd) (build_all_writes sc) w1 = (Inr (), wa)
           \<Longrightarrow> chmod E (build_all_path bd) 493 wa = (Inl e, w2)
           \<Longrightarrow> generate_files E models bd gbs w = (Inl e, w2)"
  using assms by (simp_all add: generate_files_def io_bind_def makedirs_def)


text \<open>
  C8. No statement of the script catches a filesystem error. Each filesystem call
  raises when the environment fails it: \<open>makedirs\<close>, the opening of a file and
  \<open>chmod\<close> leave the world as it was, and a failing write or close leaves the file
  opened with a prefix of the text; no call touches another file, so nothing written
  before is cleaned up. \<open>generate_files\<close> raises what \<open>makedirs\<close> raises. With the
  loop completed for the models before one, whatever a statement of the body raises for
  that model (the write of the build file, of the build configuration, of the build
  script, the \<open>chmod\<close>) is raised by \<open>generate_files\<close> on any list that continues
  with further models, and the world is the one that statement left: nothing is
  printed or written for a later model. The same holds for the write and the \<open>chmod\<close>
  of the umbrella script after the loop. \<open>main\<close> raises whatever \<open>generate_files\<close>
  raises, from the same world, without submitting or printing anything.
\<close>

theorem filesystem_error_propagates:
  "(fs_fails E v (Makedirs d) \<longrightarrow> makedirs E d v = (Inl (OSError (Makedirs d)), v))
   \<and> (fs_fails E v (OpenW p) \<longrightarrow> with_open_w E p texts v = (Inl (OSError (OpenW p)), v))
   \<and> (\<not> fs_fails E v (OpenW p)
       \<and> write_all E texts [] = (err, buf)
       \<and> fs_fails E (set_file p [] (open_mode E (files v) p) v) (WriteClose p buf) \<longrightarrow>
         with_open_w E p texts v =
           (Inl (OSError (WriteClose p buf)),
            set_file p
              (take (flushed E (set_file p [] (open_mode E (files v) p) v) (WriteClose p buf)) buf)
              (open_mode E (files v) p) (set_file p [] (open_mode E (files v) p) v)))
   \<and> (fs_fails E v (Chmod p m) \<longrightarrow> chmod E p m v = (Inl (OSError (Chmod p m)), v))
   \<and> write_file E p text v = with_open_w E p [text] v
   \<and> (with_open_w E p texts v = (r, v') \<or> chmod E p m v = (r, v') \<longrightarrow>
        stdout v' = stdout v \<and> invoked v' = invoked v
        \<and> (\<forall>q. q \<noteq> p \<longrightarrow> files v' q = files v q))
   \<and> (fs_fails E w (Makedirs build_dir) \<longrightarrow>
        generate_files E models build_dir gbs w = (Inl (OSError (Makedirs build_dir)), w))
   \<and> (\<not> fs_fails E w (Makedirs build_dir)
       \<and> gen_loop E build_dir gbs before [] w = (Inr scripts, w1) \<longrightarrow>
        (gen_model E build_dir gbs model scripts w1 = (Inl e, w2) \<longrightarrow>
           generate_files E (before @ model # rest) build_dir gbs w = (Inl e, w2)
           \<and> stdout w2 = stdout w1 @ [py ''Generating files for model: '' @ model @ py '' (ID: ''
                                        @ get_model_id (uni_alnum E) model @ py '')'']
           \<and> invoked w2 = invoked w1
           \<and> (\<forall>q. q \<notin> {dockerfile_path E build_dir model, cloudbuild_path E build_dir model,
                         build_script_path E build_dir model}
                 \<longrightarrow> files w2 q = files w1 q))
        \<and> (print (py ''Generating files for model: '' @ model @ py '' (ID: ''
                   @ get_model_id (uni_alnum E) model @ py '')'') w1 = (Inr (), w0) \<longrightarrow>
             (write_file E (dockerfile_path E build_dir model) (render_dockerfile model []) w0
                = (Inl e, w2) \<longrightarrow>
              generate_files E (before @ model # rest) build_dir gbs w = (Inl e, w2))
           \<and> (write_file E (dockerfile_path E build_dir model) (render_dockerfile model []) w0
                = (Inr (), wa) \<longrightarrow>
                (write_file E (cloudbuild_path E build_dir model)
                   (render_cloudbuild (get_model_id (uni_alnum E) model)) wa = (Inl e, w2) \<longrightarrow>
                 generate_files E (before @ model # rest) build_dir gbs w = (Inl e, w2))
              \<and> (gbs \<and> write_file E (cloudbuild_path E build_dir model)
                          (render_cloudbuild (get_model_id (uni_alnum E) model)) wa = (Inr (), wb) \<longrightarrow>
                   (write_file E (build_script_path E build_dir model)
                      (render_build_script build_dir (get_model_id (uni_alnum E) model)) wb
                      = (Inl e, w2) \<longrightarrow>
                    generate_files E (before @ model # rest) build_dir gbs w = (Inl e, w2))
                 \<and> (write_file E (build_script_path E build_dir model)
                      (render_build_script build_dir (get_model_id (uni_alnum E) model)) wb
                      = (Inr (), wc)
                    \<and> chmod E (build_script_path E build_dir model) 493 wc = (Inl e, w2) \<longrightarrow>
                    generate_files E (before @ model # rest) build_dir gbs w = (Inl e, w2)))))
        \<and> (gbs \<and> scripts \<noteq> [] \<longrightarrow>
             (with_open_w E (build_all_path build_dir) (build_all_writes scripts) w1 = (Inl e, w2) \<longrightarrow>
              generate_files E before build_dir gbs w = (Inl e, w2))
           \<and> (with_open_w E (build_all_path build_dir) (build_all_writes scripts) w1 = (Inr (), wa)
              \<and> chmod E (build_all_path build_dir) 493 wa = (Inl e, w2) \<longrightarrow>
              generate_files E before build_dir gbs w = (Inl e, w2))))
   \<and> (generate_files E (parse_models E models_str) build_dir (\<not> no_build_scripts) w = (Inl e', w')
        \<longrightarrow> main E models_str build_dir submit no_build_scripts w = (Inl e', w'))"
proof -
  have close: "with_open_w E p texts v =
           (Inl (OSError (WriteClose p buf)),
            set_file p
              (take (flushed E (set_file p [] (open_mode E (files v) p) v) (WriteClose p buf)) buf)
              (open_mode E (files v) p) (set_file p [] (open_mode E (files v) p) v))"
    if "\<not> fs_fails E v (OpenW p)" "write_all E texts [] = (err, buf)"
      "fs_fails E (set_file p [] (open_mode E (files v) p) v) (WriteClose p buf)"
    using with_open_w_close_fails [OF that(1) refl that(2) that(3)] .
  have frame: "stdout v' = stdout v \<and> invoked v' = invoked v
        \<and> (\<forall>q. q \<noteq> p \<longrightarrow> files v' q = files v q)"
    if "with_open_w E p texts v = (r, v') \<or> chmod E p m v = (r, v')"
    using that with_open_w_frame chmod_frame by blast
  have mk: "generate_files E models build_dir gbs w = (Inl (OSError (Makedirs build_dir)), w)"
    if "fs_fails E w (Makedirs build_dir)"
    using that by (simp add: generate_files_def io_bind_def makedirs_def)
  have body: "generate_files E (before @ model # rest) build_dir gbs w = (Inl e, w2)
           \<and> stdout w2 = stdout w1 @ [py ''Generating files for model: '' @ model @ py '' (ID: ''
                                        @ get_model_id (uni_alnum E) model @ py '')'']
           \<and> invoked w2 = invoked w1
           \<and> (\<forall>q. q \<notin> {dockerfile_path E build_dir model, cloudbuild_path E build_dir model,
                         build_script_path E build_dir model}
                 \<longrightarrow> files w2 q = files w1 q)"
    if "\<not> fs_fails E w (Makedirs build_dir)"
      "gen_loop E build_dir gbs before [] w = (Inr scripts, w1)"
      "gen_model E build_dir gbs model scripts w1 = (Inl e, w2)" for e w2
    using generate_files_loop_raises [OF that] gen_model_raises [OF that(3)]
    by (simp add: generating_line_def)
  have main: "main E models_str build_dir submit no_build_scripts w = (Inl e', w')"
    if "generate_files E (parse_models E models_str) build_dir (\<not> no_build_scripts) w = (Inl e', w')"
    using that by (simp add: main_def Let_def io_bind_def)
  have P1: "generate_files E (before @ model # rest) build_dir gbs w = (Inl e, w2)"
    if "\<not> fs_fails E w (Makedirs build_dir)"
      "gen_loop E build_dir gbs before [] w = (Inr scripts, w1)"
      "print (py ''Generating files for model: '' @ model @ py '' (ID: ''
                   @ get_model_id (uni_alnum E) model @ py '')'') w1 = (Inr (), w0)"
      "write_file E (dockerfile_path E build_dir model) (render_dockerfile model []) w0
                = (Inl e, w2)" for e w2
    by (rule generate_files_loop_raises [OF that(1) that(2)])
      (rule gen_model_raise_points(1) [OF that(3) that(4)])
  have P2: "generate_files E (before @ model # rest) build_dir gbs w = (Inl e, w2)"
    if "\<not> fs_fails E w (Makedirs build_dir)"
      "gen_loop E build_dir gbs before [] w = (Inr scripts, w1)"
      "print (py ''Generating files for model: '' @ model @ py '' (ID: ''
                   @ get_model_id (uni_alnum E) model @ py '')'') w1 = (Inr (), w0)"
      "write_file E (dockerfile_path E build_dir model) (render_dockerfile model []) w0
                = (Inr (), wa)"
      "write_file E (cloudbuild_path E build_dir model)
                   (render_cloudbuild (get_model_id (uni_alnum E) model)) wa = (Inl e, w2)" for e w2
    by (rule generate_files_loop_raises [OF that(1) that(2)])
      (rule gen_model_raise_points(2) [OF that(3) that(4) that(5)])
  have P3: "generate_files E (before @ model # rest) build_dir gbs w = (Inl e, w2)"
    if "\<not> fs_fails E w (Makedirs build_dir)"
      "gen_loop E build_dir gbs before [] w = (Inr scripts, w1)"
      "print (py ''Generating files for model: '' @ model @ py '' (ID: ''
                   @ get_model_id (uni_alnum E) model @ py '')'') w1 = (Inr (), w0)"
      "write_file E (dockerfile_path E build_dir model) (render_dockerfile model []) w0
                = (Inr (), wa)"
      "gbs"
      "write_file E (cloudbuild_path E build_dir model)
                   (render_cloudbuild (get_model_id (uni_alnum E) model)) wa = (Inr (), wb)"
      "write_file E (build_script_path E build_dir model)
                      (render_build_script build_dir (get_model_id (uni_alnum E) model)) wb
                      = (Inl e, w2)" for e w2
    by (rule generate_files_loop_raises [OF that(1) that(2)])
      (rule gen_model_raise_points(3) [OF that(3) that(5) that(4) that(6) that(7)])
  have P4: "generate_files E (before @ model # rest) build_dir gbs w = (Inl e, w2)"
    if "\<not> fs_fails E w (Makedirs build_dir)"
      "gen_loop E build_dir gbs before [] w = (Inr scripts, w1)"
      "print (py ''Generating files for model: '' @ model @ py '' (ID: ''
                   @ get_model_id (uni_alnum E) model @ py '')'') w1 = (Inr (), w0)"
      "write_file E (dockerfile_path E build_dir model) (render_dockerfile model []) w0
                = (Inr (), wa)"
      "gbs"
      "write_file E (cloudbuild_path E build_dir model)
                   (render_cloudbuild (get_model_id (uni_alnum E) model)) wa = (Inr (), wb)"
      "write_file E (build_script_path E build_dir model)
                      (render_build_script build_dir (get_model_id (uni_alnum E) model)) wb
                      = (Inr (), wc)"
      "chmod E (build_script_path E build_dir model) 493 wc = (Inl e, w2)" for e w2
    by (rule generate_files_loop_raises [OF that(1) that(2)])
      (rule gen_model_raise_points(4) [OF that(3) that(5) that(4) that(6) that(7) that(8)])
  have U1: "generate_files E before build_dir gbs w = (Inl e, w2)"
    if "\<not> fs_fails E w (Makedirs build_dir)"
      "gen_loop E build_dir gbs before [] w = (Inr scripts, w1)"
      "gbs" "scripts \<noteq> []"
      "with_open_w E (build_all_path build_dir) (build_all_writes scripts) w1 = (Inl e, w2)" for e w2
    by (rule generate_files_umbrella_raises(1) [OF that])
  have U2: "generate_files E before build_dir gbs w = (Inl e, w2)"
    if "\<not> fs_fails E w (Makedirs build_dir)"
      "gen_loop E build_dir gbs before [] w = (Inr scripts, w1)"
      "gbs" "scripts \<noteq> []"
      "with_open_w E (build_all_path build_dir) (build_all_writes scripts) w1 = (Inr (), wa)"
      "chmod E (build_all_path build_dir) 493 wa = (Inl e, w2)" for e w2
    by (rule generate_files_umbrella_raises(2) [OF that])
  have wf: "write_file E p text v = with_open_w E p [text] v"
    by (simp add: write_file_def)
  show ?thesis
    apply (intro conjI impI allI; (elim conjE)?)
    subgoal by (rule makedirs_fails)
    subgoal by (rule with_open_w_open_fails)
    subgoal by (rule close)
    subgoal by (rule chmod_fails)
    subgoal by (rule wf)
    subgoal using frame by blast
    subgoal using frame by blast
    subgoal using frame by blast
    subgoal by (rule mk)
    subgoal using body by blast
    subgoal using body by blast
    subgoal using body by blast
    subgoal using body by blast
    subgoal by (rule P1; assumption)
    subgoal by (rule P2; assumption)
    subgoal by (rule P3; assumption)
    subgoal by (rule P4; assumption)
    subgoal by (rule U1; assumption)
    subgoal by (rule U2; assumption)
    subgoal by (rule main)
    done
qed


theorem filesystem_error_propagates_witness:
  "fst (main denied_env (py ''a,b,c'') (py ''build'') True False empty_world)
     = Inl (OSError (OpenW (py ''build/Dockerfile-b'')))
   \<and> map_option content
        (files (snd (main denied_env (py ''a,b,c'') (py ''build'') True False empty_world))
          (py ''build/Dockerfile-a''))
       = Some (render_dockerfile (py ''a'') [])
   \<and> files (snd (main denied_env (py ''a,b,c'') (py ''build'') True False empty_world))
          (py ''build/Dockerfile-c'') = None
   \<and> invoked (snd (main denied_env (py ''a,b,c'') (py ''build'') True False empty_world)) = []
   \<and> stdout (snd (main denied_env (py ''a,b,c'') (py ''build'') True False empty_world))
       = [py ''Generating files for model: a (ID: a)'', py ''Generating files for model: b (ID: b)'']
   \<and> fst (generate_files denied_umbrella_env [py ''a''] (py ''build'') True empty_world)
       = Inl (OSError (OpenW (py ''build/build-all.sh'')))
   \<and> files (snd (generate_files denied_umbrella_env [py ''a''] (py ''build'') True empty_world))
        (py ''build/build-a.sh'')
       = Some \<lparr>content = render_build_script (py ''build'') (py ''a''), mode = 493\<rparr>
   \<and> fst (generate_files full_disk_env [py ''a''] (py ''build'') False empty_world)
       = Inl (OSError (WriteClose (py ''build/Dockerfile-a'') (render_dockerfile (py ''a'') [])))
   \<and> map_option content
        (files (snd (generate_files full_disk_env [py ''a''] (py ''build'') False empty_world))
          (py ''build/Dockerfile-a''))
       = Some []"
proof -
  let ?bd = "py ''build''"
  let ?sa = "[py ''build/build-a.sh'']"
  have eval_loop: "fst (gen_loop E ?bd True [py ''a''] [] empty_world) = Inr ?sa"
    if "\<And>v text. \<not> fs_fails E v (OpenW (py ''build/Dockerfile-a''))"
       "\<And>v text. \<not> fs_fails E v (OpenW (py ''build/a-cloudbuild.yaml''))"
       "\<And>v text. \<not> fs_fails E v (OpenW (py ''build/build-a.sh''))"
       "\<And>v p text. \<not> fs_fails E v (WriteClose p text)"
       "\<And>v p m. \<not> fs_fails E v (Chmod p m)"
       "\<And>text. encodable E text" "uni_alnum E = (\<lambda>c. False)" for E
  proof -
    have paths: "dockerfile_path E ?bd (py ''a'') = py ''build/Dockerfile-a''"
      "cloudbuild_path E ?bd (py ''a'') = py ''build/a-cloudbuild.yaml''"
      "build_script_path E ?bd (py ''a'') = py ''build/build-a.sh''"
      by (simp_all add: dockerfile_path_def cloudbuild_path_def build_script_path_def
          path_join_def get_model_id_map isalnum_def hyphen_def slash_def py_def)
    show ?thesis
      unfolding gen_loop.simps gen_model_def Let_def paths
      by (simp add: that io_bind_def io_return_def print_def write_file_def with_open_w_def
          chmod_def set_file_def Let_def)
  qed

  let ?E = denied_env
  define w1 where "w1 = snd (gen_loop ?E ?bd True [py ''a''] [] empty_world)"
  define w0 where "w0 = w1\<lparr>stdout := stdout w1 @ [py ''Generating files for model: '' @ py ''b''
      @ py '' (ID: '' @ get_model_id (uni_alnum ?E) (py ''b'') @ py '')'']\<rparr>"
  let ?e = "OSError (OpenW (py ''build/Dockerfile-b''))"
  note K = filesystem_error_propagates [where E = "?E" and v = w0 and p = "py ''build/Dockerfile-b''"
      and texts = "[render_dockerfile (py ''b'') []]" and ?text = "render_dockerfile (py ''b'') []"
      and w = empty_world and build_dir = "?bd" and gbs = True and before = "[py ''a'']"
      and scripts = "?sa" and ?w1.0 = w1 and model = "py ''b''" and rest = "[py ''c'']"
      and ?w0.0 = w0 and e = "?e" and ?w2.0 = w0 and models_str = "py ''a,b,c''"
      and no_build_scripts = False and submit = True and e' = "?e" and w' = w0]
  have mk: "\<not> fs_fails ?E empty_world (Makedirs ?bd)"
    by (simp add: denied_env_def quiet_env_def)
  have "fst (gen_loop ?E ?bd True [py ''a''] [] empty_world) = Inr ?sa"
    by (rule eval_loop) (simp_all add: denied_env_def quiet_env_def py_def)
  then have l: "gen_loop ?E ?bd True [py ''a''] [] empty_world = (Inr ?sa, w1)"
    by (simp add: w1_def prod_eq_iff)
  have pr: "print (py ''Generating files for model: '' @ py ''b'' @ py '' (ID: ''
                   @ get_model_id (uni_alnum ?E) (py ''b'') @ py '')'') w1 = (Inr (), w0)"
    by (simp add: print_def w0_def)
  have dp: "dockerfile_path ?E ?bd (py ''b'') = py ''build/Dockerfile-b''"
    by (simp add: dockerfile_path_def path_join_def get_model_id_map isalnum_def hyphen_def
        slash_def py_def)
  have ff: "fs_fails ?E w0 (OpenW (py ''build/Dockerfile-b''))"
    by (simp add: denied_env_def quiet_env_def)
  from K [THEN conjunct2, THEN conjunct1, THEN mp, OF ff]
    K [THEN conjunct2, THEN conjunct2, THEN conjunct2, THEN conjunct2, THEN conjunct1]
  have wf: "write_file ?E (dockerfile_path ?E ?bd (py ''b'')) (render_dockerfile (py ''b'') []) w0
      = (Inl ?e, w0)"
    by (simp add: dp)
  note nested = K [THEN conjunct2, THEN conjunct2, THEN conjunct2, THEN conjunct2, THEN conjunct2,
      THEN conjunct2, THEN conjunct2, THEN conjunct1, THEN mp, OF conjI [OF mk l]]
  from nested [THEN conjunct2, THEN conjunct1, THEN mp, OF pr, THEN conjunct1, THEN mp, OF wf]
  have gf: "generate_files ?E ([py ''a''] @ py ''b'' # [py ''c'']) ?bd True empty_world = (Inl ?e, w0)" .
  have pm: "parse_models ?E (py ''a,b,c'') = [py ''a''] @ py ''b'' # [py ''c'']"
    by (simp add: parse_models_def strip_def isspace_def py_def comma_def)
  from gf pm have "generate_files ?E (parse_models ?E (py ''a,b,c'')) ?bd (\<not> False) empty_world
      = (Inl ?e, w0)" by simp
  from K [THEN conjunct2, THEN conjunct2, THEN conjunct2, THEN conjunct2, THEN conjunct2,
      THEN conjunct2, THEN conjunct2, THEN conjunct2, THEN mp, OF this]
  have m: "main ?E (py ''a,b,c'') ?bd True False empty_world = (Inl ?e, w0)" .
  note L = gen_loop_ok [OF l]
  from L have f: "map_option content (files w0 (py ''build/Dockerfile-a'')) = Some (render_dockerfile (py ''a'') [])"
    "files w0 (py ''build/Dockerfile-c'') = None"
    by (simp_all add: w0_def model_files_def put_file_def put_script_def Let_def empty_world_def
        dockerfile_path_def cloudbuild_path_def build_script_path_def path_join_def
        get_model_id_map isalnum_def hyphen_def slash_def py_def)
  from L have o: "stdout w0 = [py ''Generating files for model: a (ID: a)'',
      py ''Generating files for model: b (ID: b)'']"
    by (simp add: w0_def generating_line_def empty_world_def get_model_id_map isalnum_def
        hyphen_def py_def)
  from L have iv: "invoked w0 = []" by (simp add: w0_def empty_world_def)

  let ?U = denied_umbrella_env
  define u1 where "u1 = snd (gen_loop ?U ?bd True [py ''a''] [] empty_world)"
  let ?eu = "OSError (OpenW (py ''build/build-all.sh''))"
  note KU = filesystem_error_propagates [where E = "?U" and v = u1 and p = "py ''build/build-all.sh''"
      and texts = "build_all_writes ?sa" and w = empty_world and build_dir = "?bd" and gbs = True
      and before = "[py ''a'']" and scripts = "?sa" and ?w1.0 = u1 and e = "?eu" and ?w2.0 = u1]
  have mku: "\<not> fs_fails ?U empty_world (Makedirs ?bd)"
    by (simp add: denied_umbrella_env_def quiet_env_def)
  have "fst (gen_loop ?U ?bd True [py ''a''] [] empty_world) = Inr ?sa"
    by (rule eval_loop) (simp_all add: denied_umbrella_env_def quiet_env_def py_def)
  then have lu: "gen_loop ?U ?bd True [py ''a''] [] empty_world = (Inr ?sa, u1)"
    by (simp add: u1_def prod_eq_iff)
  have ap: "build_all_path ?bd = py ''build/build-all.sh''"
    by (simp add: build_all_path_def path_join_def slash_def py_def)
  have ffu: "fs_fails ?U u1 (OpenW (py ''build/build-all.sh''))"
    by (simp add: denied_umbrella_env_def quiet_env_def)
  from KU [THEN conjunct2, THEN conjunct1, THEN mp, OF ffu]
  have ou: "with_open_w ?U (build_all_path ?bd) (build_all_writes ?sa) u1 = (Inl ?eu, u1)"
    by (simp add: ap)
  have ne: "True \<and> ?sa \<noteq> []" by simp
  note nestedu = KU [THEN conjunct2, THEN conjunct2, THEN conjunct2, THEN conjunct2, THEN conjunct2,
      THEN conjunct2, THEN conjunct2, THEN conjunct1, THEN mp, OF conjI [OF mku lu]]
  from nestedu [THEN conjunct2, THEN conjunct2, THEN mp, OF ne, THEN conjunct1, THEN mp, OF ou]
  have gu: "generate_files ?U [py ''a''] ?bd True empty_world = (Inl ?eu, u1)" .
  from gen_loop_ok [OF lu]
  have fu: "files u1 (py ''build/build-a.sh'')
       = Some \<lparr>content = render_build_script (py ''build'') (py ''a''), mode = 493\<rparr>"
    by (simp add: model_files_def put_file_def put_script_def Let_def empty_world_def
        dockerfile_path_def cloudbuild_path_def build_script_path_def path_join_def
        get_model_id_map isalnum_def hyphen_def slash_def py_def)
  let ?F = full_disk_env
  let ?d = "render_dockerfile (py ''a'') []"
  let ?pa = "py ''build/Dockerfile-a''"
  define f0 where "f0 = empty_world\<lparr>stdout := stdout empty_world @ [py ''Generating files for model: ''
      @ py ''a'' @ py '' (ID: '' @ get_model_id (uni_alnum ?F) (py ''a'') @ py '')'']\<rparr>"
  define f1 where "f1 = set_file ?pa [] (open_mode ?F (files f0) ?pa) f0"
  define f2 where "f2 = set_file ?pa (take (flushed ?F f1 (WriteClose ?pa ?d)) ?d)
      (open_mode ?F (files f0) ?pa) f1"
  let ?ef = "OSError (WriteClose ?pa ?d)"
  note KF = filesystem_error_propagates [where E = "?F" and v = f0 and p = "?pa"
      and texts = "[?d]" and ?text = "?d" and err = None and buf = "?d"
      and w = empty_world and build_dir = "?bd" and gbs = False and before = "[]"
      and scripts = "[]" and ?w1.0 = empty_world and model = "py ''a''" and rest = "[]"
      and ?w0.0 = f0 and e = "?ef" and ?w2.0 = f2]
  have mkf: "\<not> fs_fails ?F empty_world (Makedirs ?bd)"
    by (simp add: full_disk_env_def quiet_env_def)
  have lf: "gen_loop ?F ?bd False [] [] empty_world = (Inr [], empty_world)"
    by (simp add: io_return_def)
  have pr0: "print (py ''Generating files for model: '' @ py ''a'' @ py '' (ID: ''
                   @ get_model_id (uni_alnum ?F) (py ''a'') @ py '')'') empty_world = (Inr (), f0)"
    by (simp add: print_def f0_def)
  have dpf: "dockerfile_path ?F ?bd (py ''a'') = ?pa"
    by (simp add: dockerfile_path_def path_join_def get_model_id_map isalnum_def hyphen_def
        slash_def py_def)
  have hyp: "\<not> fs_fails ?F f0 (OpenW ?pa) \<and> write_all ?F [?d] [] = (None, ?d)
      \<and> fs_fails ?F (set_file ?pa [] (open_mode ?F (files f0) ?pa) f0) (WriteClose ?pa ?d)"
    by (simp add: full_disk_env_def quiet_env_def)
  from KF [THEN conjunct2, THEN conjunct2, THEN conjunct1, THEN mp, OF hyp]
    KF [THEN conjunct2, THEN conjunct2, THEN conjunct2, THEN conjunct2, THEN conjunct1]
  have wff: "write_file ?F (dockerfile_path ?F ?bd (py ''a'')) ?d f0 = (Inl ?ef, f2)"
    by (simp add: dpf f1_def f2_def)
  note nestedf = KF [THEN conjunct2, THEN conjunct2, THEN conjunct2, THEN conjunct2, THEN conjunct2,
      THEN conjunct2, THEN conjunct2, THEN conjunct1, THEN mp, OF conjI [OF mkf lf]]
  from nestedf [THEN conjunct2, THEN conjunct1, THEN mp, OF pr0, THEN conjunct1, THEN mp, OF wff]
  have gff: "generate_files ?F [py ''a''] ?bd False empty_world = (Inl ?ef, f2)" by simp
  have ff2: "map_option content (files f2 ?pa) = Some []"
    by (simp add: f2_def f1_def set_file_def full_disk_env_def quiet_env_def)
  from m f iv o gu fu gff ff2 show ?thesis by simp
qed

section \<open>Failing builds\<close>

lemma submit_model_launched:
  assumes "run_cmd E (w\<lparr>stdout := stdout w @ [submitting_line E model]\<rparr>)
             (submit_argv E build_dir model) \<noteq> LaunchFailed"
  shows "submit_model E build_dir model w =
           (Inr (), w\<lparr>stdout := stdout w @ [submitting_line E model, outcome_line E build_dir model w],
                      invoked := invoked w @ [submit_argv E build_dir model]\<rparr>)"
  using assms
  by (cases "run_cmd E (w\<lparr>stdout := stdout w @ [submitting_line E model]\<rparr>)
             (submit_argv E build_dir model)")
    (simp_all add: submit_model_def subprocess_run_def io_bind_def print_def Let_def
      submitting_line_def outcome_line_def)

lemma submit_model_cases:
  "submit_model E build_dir model w =
     (case run_cmd E (w\<lparr>stdout := stdout w @ [submitting_line E model]\<rparr>)
             (submit_argv E build_dir model) of
        Exited rc \<Rightarrow>
          (Inr (),
           w\<lparr>stdout := stdout w @
                [submitting_line E model,
                 if rc = 0 then py ''Build submitted successfully for '' @ model
                 else py ''Error submitting build for '' @ model @ py '': ''
                      @ str_exn E (CalledProcessError rc (submit_argv E build_dir model))],
             invoked := invoked w @ [submit_argv E build_dir model]\<rparr>)
      | LaunchFailed \<Rightarrow>
          (Inl (OSError_exec (submit_argv E build_dir model)),
           w\<lparr>stdout := stdout w @ [submitting_line E model],
             invoked := invoked w @ [submit_argv E build_dir model]\<rparr>))"
  by (cases "run_cmd E (w\<lparr>stdout := stdout w @ [submitting_line E model]\<rparr>)
             (submit_argv E build_dir model)")
    (simp_all add: submit_model_def subprocess_run_def io_bind_def print_def Let_def
      submitting_line_def)

lemma submit_builds_launched:
  assumes "\<And>w argv. run_cmd E w argv \<noteq> LaunchFailed"
  shows "fst (submit_builds E models build_dir w) = Inr ()
         \<and> invoked (snd (submit_builds E models build_dir w))
             = invoked w @ map (submit_argv E build_dir) models
         \<and> files (snd (submit_builds E models build_dir w)) = files w
         \<and> length (stdout (snd (submit_builds E models build_dir w)))
             = length (stdout w) + 2 * length models"
proof (induction models arbitrary: w)
  case Nil
  then show ?case by (simp add: io_return_def)
next
  case (Cons m ms)
  show ?case
    unfolding submit_builds.simps io_bind_def submit_model_launched [OF assms]
    using Cons.IH by simp
qed

lemma submit_builds_append:
  assumes "\<And>w argv. run_cmd E w argv \<noteq> LaunchFailed"
  shows "submit_builds E (before @ rest) build_dir w
           = submit_builds E rest build_dir (snd (submit_builds E before build_dir w))"
proof (induction before arbitrary: w)
  case Nil
  then show ?case by (simp add: io_return_def)
next
  case (Cons m ms)
  show ?case
    unfolding append_Cons submit_builds.simps io_bind_def submit_model_launched [OF assms]
    using Cons.IH by simp
qed

lemma submit_builds_completed_append:
  assumes "submit_builds E before build_dir w = (Inr u, w1)"
  shows "submit_builds E (before @ rest) build_dir w = submit_builds E rest build_dir w1"
  using assms
proof (induction before arbitrary: w)
  case Nil
  then show ?case by (simp add: io_return_def)
next
  case (Cons m ms)
  from Cons.prems obtain w0 where
    a: "submit_model E build_dir m w = (Inr (), w0)" and
    b: "submit_builds E ms build_dir w0 = (Inr u, w1)"
    by (auto simp: io_bind_Inr)
  from Cons.IH [OF b] a show ?case by (simp add: io_bind_def)
qed

text \<open>
  C6, as the code has it. \<open>submit_builds\<close> catches \<open>CalledProcessError\<close> only. Take a
  model anywhere in the list, the loop having completed for the models before it. When
  its command is started and exits, the loop goes on to the models after it, whatever
  the status: with status 0 the line \<open>Build submitted successfully for\<close> and the name
  is printed, with another status the line \<open>Error submitting build for\<close>, the name and
  the text of the exception. When its command cannot be started, \<open>subprocess.run\<close>
  raises an \<open>OSError\<close>, which the loop does not catch: \<open>submit_builds\<close> raises it and
  no model after this one is submitted. So when the command can be started for every
  model, the loop never raises: it runs the command once for every model, in the order
  of the list, and leaves the files alone.
\<close>

theorem submit_builds_continues:
  "((\<forall>w argv. run_cmd E w argv \<noteq> LaunchFailed) \<longrightarrow>
       fst (submit_builds E models build_dir w) = Inr ()
       \<and> invoked (snd (submit_builds E models build_dir w))
           = invoked w @ map (submit_argv E build_dir) models
       \<and> files (snd (submit_builds E models build_dir w)) = files w
       \<and> submit_builds E (before @ model # rest) build_dir w
           = submit_builds E rest build_dir
               (snd (submit_model E build_dir model (snd (submit_builds E before build_dir w)))))
   \<and> (\<forall>rc. rc \<noteq> 0
           \<and> run_cmd E
                (w\<lparr>stdout := stdout w @ [py ''Submitting build for model: '' @ model @ py '' (ID: ''
                                         @ get_model_id (uni_alnum E) model @ py '')'']\<rparr>)
                (submit_argv E build_dir model) = Exited rc
         \<longrightarrow> submit_model E build_dir model w =
              (Inr (),
               w\<lparr>stdout := stdout w @
                    [py ''Submitting build for model: '' @ model @ py '' (ID: ''
                       @ get_model_id (uni_alnum E) model @ py '')'',
                     py ''Error submitting build for '' @ model @ py '': ''
                       @ str_exn E (CalledProcessError rc (submit_argv E build_dir model))],
                 invoked := invoked w @ [submit_argv E build_dir model]\<rparr>))
   \<and> (submit_builds E before build_dir w = (Inr u, w1) \<longrightarrow>
        submit_builds E (before @ model # rest) build_dir w =
          (case run_cmd E
                  (w1\<lparr>stdout := stdout w1 @ [py ''Submitting build for model: '' @ model
                                             @ py '' (ID: '' @ get_model_id (uni_alnum E) model
                                             @ py '')'']\<rparr>)
                  (submit_argv E build_dir model) of
             Exited rc \<Rightarrow>
               submit_builds E rest build_dir
                 (w1\<lparr>stdout := stdout w1 @
                       [py ''Submitting build for model: '' @ model @ py '' (ID: ''
                          @ get_model_id (uni_alnum E) model @ py '')'',
                        if rc = 0 then py ''Build submitted successfully for '' @ model
                        else py ''Error submitting build for '' @ model @ py '': ''
                             @ str_exn E (CalledProcessError rc (submit_argv E build_dir model))],
                     invoked := invoked w1 @ [submit_argv E build_dir model]\<rparr>)
           | LaunchFailed \<Rightarrow>
               (Inl (OSError_exec (submit_argv E build_dir model)),
                w1\<lparr>stdout := stdout w1 @
                      [py ''Submitting build for model: '' @ model @ py '' (ID: ''
                         @ get_model_id (uni_alnum E) model @ py '')''],
                    invoked := invoked w1 @ [submit_argv E build_dir model]\<rparr>)))"
proof -
  have A: "fst (submit_builds E models build_dir w) = Inr ()
       \<and> invoked (snd (submit_builds E models build_dir w))
           = invoked w @ map (submit_argv E build_dir) models
       \<and> files (snd (submit_builds E models build_dir w)) = files w
       \<and> submit_builds E (before @ model # rest) build_dir w
           = submit_builds E rest build_dir
               (snd (submit_model E build_dir model (snd (submit_builds E before build_dir w))))"
    if "\<forall>w argv. run_cmd E w argv \<noteq> LaunchFailed"
  proof -
    from that have launched: "run_cmd E w argv \<noteq> LaunchFailed" for w argv by blast
    note L = submit_builds_launched [OF launched, of models build_dir w]
    have "submit_builds E (before @ model # rest) build_dir w
          = submit_builds E (model # rest) build_dir (snd (submit_builds E before build_dir w))"
      by (rule submit_builds_append [OF launched])
    also have "\<dots> = submit_builds E rest build_dir
             (snd (submit_model E build_dir model (snd (submit_builds E before build_dir w))))"
      unfolding submit_builds.simps io_bind_def submit_model_launched [OF launched] by simp
    finally show ?thesis using L by simp
  qed
  have B: "submit_model E build_dir model w =
              (Inr (),
               w\<lparr>stdout := stdout w @
                    [py ''Submitting build for model: '' @ model @ py '' (ID: ''
                       @ get_model_id (uni_alnum E) model @ py '')'',
                     py ''Error submitting build for '' @ model @ py '': ''
                       @ str_exn E (CalledProcessError rc (submit_argv E build_dir model))],
                 invoked := invoked w @ [submit_argv E build_dir model]\<rparr>)"
    if "rc \<noteq> 0" and "run_cmd E
                (w\<lparr>stdout := stdout w @ [py ''Submitting build for model: '' @ model @ py '' (ID: ''
                                         @ get_model_id (uni_alnum E) model @ py '')'']\<rparr>)
                (submit_argv E build_dir model) = Exited rc" for rc
    using that
    by (simp add: submit_model_def subprocess_run_def io_bind_def print_def Let_def)
  have C: "submit_builds E (before @ model # rest) build_dir w =
          (case run_cmd E
                  (w1\<lparr>stdout := stdout w1 @ [py ''Submitting build for model: '' @ model
                                             @ py '' (ID: '' @ get_model_id (uni_alnum E) model
                                             @ py '')'']\<rparr>)
                  (submit_argv E build_dir model) of
             Exited rc \<Rightarrow>
               submit_builds E rest build_dir
                 (w1\<lparr>stdout := stdout w1 @
                       [py ''Submitting build for model: '' @ model @ py '' (ID: ''
                          @ get_model_id (uni_alnum E) model @ py '')'',
                        if rc = 0 then py ''Build submitted successfully for '' @ model
                        else py ''Error submitting build for '' @ model @ py '': ''
                             @ str_exn E (CalledProcessError rc (submit_argv E build_dir model))],
                     invoked := invoked w1 @ [submit_argv E build_dir model]\<rparr>)
           | LaunchFailed \<Rightarrow>
               (Inl (OSError_exec (submit_argv E build_dir model)),
                w1\<lparr>stdout := stdout w1 @
                      [py ''Submitting build for model: '' @ model @ py '' (ID: ''
                         @ get_model_id (uni_alnum E) model @ py '')''],
                    invoked := invoked w1 @ [submit_argv E build_dir model]\<rparr>))"
    if "submit_builds E before build_dir w = (Inr u, w1)"
    unfolding submit_builds_completed_append [OF that] submit_builds.simps io_bind_def
      submit_model_cases
    by (simp add: submitting_line_def split: proc_outcome.splits)
  from A B C show ?thesis by blast
qed


theorem submit_builds_continues_witness:
  "run_cmd failing_a_env (empty_world\<lparr>stdout := [py ''Submitting build for model: a (ID: a)'']\<rparr>)
      (submit_argv failing_a_env (py ''build'') (py ''a'')) = Exited 1
   \<and> fst (submit_builds failing_a_env [py ''a'', py ''b''] (py ''build'') empty_world) = Inr ()
   \<and> invoked (snd (submit_builds failing_a_env [py ''a'', py ''b''] (py ''build'') empty_world))
       = [[py ''gcloud'', py ''builds'', py ''submit'', py ''--config'',
           py ''build/a-cloudbuild.yaml'', py ''build''],
          [py ''gcloud'', py ''builds'', py ''submit'', py ''--config'',
           py ''build/b-cloudbuild.yaml'', py ''build'']]
   \<and> stdout (snd (submit_builds failing_a_env [py ''a'', py ''b''] (py ''build'') empty_world))
       = [py ''Submitting build for model: a (ID: a)'',
          py ''Error submitting build for a: non-zero exit status'',
          py ''Submitting build for model: b (ID: b)'',
          py ''Build submitted successfully for b'']
   \<and> submit_builds launch_b_fails_env [py ''a''] (py ''build'') empty_world
       = (Inr (),
          empty_world\<lparr>stdout := [py ''Submitting build for model: a (ID: a)'',
                                  py ''Build submitted successfully for a''],
                      invoked := [[py ''gcloud'', py ''builds'', py ''submit'', py ''--config'',
                                   py ''build/a-cloudbuild.yaml'', py ''build'']]\<rparr>)
   \<and> submit_builds launch_b_fails_env [py ''a'', py ''b'', py ''c''] (py ''build'') empty_world
       = (Inl (OSError_exec [py ''gcloud'', py ''builds'', py ''submit'', py ''--config'',
                             py ''build/b-cloudbuild.yaml'', py ''build'']),
          empty_world\<lparr>stdout := [py ''Submitting build for model: a (ID: a)'',
                                  py ''Build submitted successfully for a'',
                                  py ''Submitting build for model: b (ID: b)''],
                      invoked := [[py ''gcloud'', py ''builds'', py ''submit'', py ''--config'',
                                   py ''build/a-cloudbuild.yaml'', py ''build''],
                                  [py ''gcloud'', py ''builds'', py ''submit'', py ''--config'',
                                   py ''build/b-cloudbuild.yaml'', py ''build'']]\<rparr>)"
proof -
  have launched: "\<forall>w argv. run_cmd failing_a_env w argv \<noteq> LaunchFailed"
    by (simp add: failing_a_env_def quiet_env_def)
  note K = submit_builds_continues [of failing_a_env "[py ''a'', py ''b'']" "py ''build''" empty_world]
  have argv: "submit_argv E (py ''build'') (py ''a'')
          = [py ''gcloud'', py ''builds'', py ''submit'', py ''--config'',
             py ''build/a-cloudbuild.yaml'', py ''build'']"
    "submit_argv E (py ''build'') (py ''b'')
          = [py ''gcloud'', py ''builds'', py ''submit'', py ''--config'',
             py ''build/b-cloudbuild.yaml'', py ''build'']" for E
    by (simp_all add: submit_argv_def cloudbuild_path_def path_join_def get_model_id_map
        isalnum_def hyphen_def slash_def py_def)
  have r: "run_cmd failing_a_env (empty_world\<lparr>stdout := [py ''Submitting build for model: a (ID: a)'']\<rparr>)
      (submit_argv failing_a_env (py ''build'') (py ''a'')) = Exited 1"
    unfolding argv by (simp add: failing_a_env_def quiet_env_def)
  from K launched have a: "fst (submit_builds failing_a_env [py ''a'', py ''b''] (py ''build'') empty_world) = Inr ()"
    by blast
  from K launched have "invoked (snd (submit_builds failing_a_env [py ''a'', py ''b''] (py ''build'') empty_world))
       = invoked empty_world @ map (submit_argv failing_a_env (py ''build'')) [py ''a'', py ''b'']"
    by blast
  then have b: "invoked (snd (submit_builds failing_a_env [py ''a'', py ''b''] (py ''build'') empty_world))
       = [[py ''gcloud'', py ''builds'', py ''submit'', py ''--config'',
           py ''build/a-cloudbuild.yaml'', py ''build''],
          [py ''gcloud'', py ''builds'', py ''submit'', py ''--config'',
           py ''build/b-cloudbuild.yaml'', py ''build'']]"
    by (simp add: argv empty_world_def)
  have c: "stdout (snd (submit_builds failing_a_env [py ''a'', py ''b''] (py ''build'') empty_world))
       = [py ''Submitting build for model: a (ID: a)'',
          py ''Error submitting build for a: non-zero exit status'',
          py ''Submitting build for model: b (ID: b)'',
          py ''Build submitted successfully for b'']"
    by (simp add: submit_model_def subprocess_run_def io_bind_def io_return_def print_def Let_def
        failing_a_env_def quiet_env_def empty_world_def submit_argv_def cloudbuild_path_def
        path_join_def get_model_id_map isalnum_def hyphen_def slash_def py_def)
  let ?w1 = "empty_world\<lparr>stdout := [py ''Submitting build for model: a (ID: a)'',
                                  py ''Build submitted successfully for a''],
                      invoked := [[py ''gcloud'', py ''builds'', py ''submit'', py ''--config'',
                                   py ''build/a-cloudbuild.yaml'', py ''build'']]\<rparr>"
  have d: "submit_builds launch_b_fails_env [py ''a''] (py ''build'') empty_world = (Inr (), ?w1)"
    by (simp add: submit_model_def subprocess_run_def io_bind_def io_return_def print_def Let_def
        launch_b_fails_env_def quiet_env_def empty_world_def submit_argv_def cloudbuild_path_def
        path_join_def get_model_id_map isalnum_def hyphen_def slash_def py_def)
  have t: "get_model_id (uni_alnum launch_b_fails_env) (py ''b'') = py ''b''"
    by (simp add: get_model_id_map isalnum_def py_def)
  have l: "run_cmd launch_b_fails_env v
             [py ''gcloud'', py ''builds'', py ''submit'', py ''--config'',
              py ''build/b-cloudbuild.yaml'', py ''build''] = LaunchFailed" for v
    by (simp add: launch_b_fails_env_def quiet_env_def)
  from submit_builds_continues [of launch_b_fails_env _ "py ''build''" empty_world "[py ''a'']"
      "py ''b''" "[py ''c'']" "()" ?w1] d
  have "submit_builds launch_b_fails_env ([py ''a''] @ py ''b'' # [py ''c'']) (py ''build'') empty_world
       = (Inl (OSError_exec [py ''gcloud'', py ''builds'', py ''submit'', py ''--config'',
                             py ''build/b-cloudbuild.yaml'', py ''build'']),
          ?w1\<lparr>stdout := stdout ?w1 @ [py ''Submitting build for model: '' @ py ''b'' @ py '' (ID: ''
                                         @ py ''b'' @ py '')''],
              invoked := invoked ?w1 @ [[py ''gcloud'', py ''builds'', py ''submit'', py ''--config'',
                                         py ''build/b-cloudbuild.yaml'', py ''build'']]\<rparr>)"
    by (simp add: argv t l)
  then have e: "submit_builds launch_b_fails_env [py ''a'', py ''b'', py ''c''] (py ''build'') empty_world
       = (Inl (OSError_exec [py ''gcloud'', py ''builds'', py ''submit'', py ''--config'',
                             py ''build/b-cloudbuild.yaml'', py ''build'']),
          empty_world\<lparr>stdout := [py ''Submitting build for model: a (ID: a)'',
                                  py ''Build submitted successfully for a'',
                                  py ''Submitting build for model: b (ID: b)''],
                      invoked := [[py ''gcloud'', py ''builds'', py ''submit'', py ''--config'',
                                   py ''build/a-cloudbuild.yaml'', py ''build''],
                                  [py ''gcloud'', py ''builds'', py ''submit'', py ''--config'',
                                   py ''build/b-cloudbuild.yaml'', py ''build'']]\<rparr>)"
    by (simp add: py_def)
  from r a b c d e show ?thesis by blast
qed

theorem submit_builds_continues_counterexample:
  "fst (submit_builds no_gcloud_env [py ''a'', py ''b''] (py ''build'') empty_world)
     = Inl (OSError_exec [py ''gcloud'', py ''builds'', py ''submit'', py ''--config'',
                          py ''build/a-cloudbuild.yaml'', py ''build''])
   \<and> invoked (snd (submit_builds no_gcloud_env [py ''a'', py ''b''] (py ''build'') empty_world))
       = [[py ''gcloud'', py ''builds'', py ''submit'', py ''--config'',
           py ''build/a-cloudbuild.yaml'', py ''build'']]
   \<and> stdout (snd (submit_builds no_gcloud_env [py ''a'', py ''b''] (py ''build'') empty_world))
       = [py ''Submitting build for model: a (ID: a)'']"
  by (simp add: submit_model_def subprocess_run_def io_bind_def io_return_def print_def Let_def
      no_gcloud_env_def quiet_env_def empty_world_def submit_argv_def cloudbuild_path_def
      path_join_def get_model_id_map isalnum_def hyphen_def slash_def py_def)

end
